theory Spec2Isabelle
  imports Complex_Main
begin

section \<open>Python values, errors and namespaces\<close>

text \<open>
  The two benchmark drivers (\<^verbatim>\<open>cuml/kmeans.py\<close> and \<^verbatim>\<open>cuml_bench/df_clsf.py\<close>) are
  glue around argparse, numpy, cuml and the \<^verbatim>\<open>bench\<close> helper module. The values they
  handle are dynamically typed, so a value is a \<open>pyval\<close>; a finite float is written as
  a real (the scripts only pass floats through). Every raise of the scripts is a
  branch of the model: a result is \<open>py_error + 'a\<close>, with \<open>Inl\<close> the exception.
\<close>

datatype pyval = PyNone | PyBool bool | PyInt int | PyFloat real | PyStr string

datatype py_error =
    NameError string
  | AttributeError string
  | IndexError
  | SystemExit int
  | LibraryError string

text \<open>
  \<^verbatim>\<open>argparse.Namespace\<close> is an object with a plain attribute dictionary: the scripts
  read attributes, overwrite them and add new ones (\<^verbatim>\<open>params.n_classes\<close>).
\<close>

type_synonym namespace = "string \<rightharpoonup> pyval"

definition getattr :: "namespace \<Rightarrow> string \<Rightarrow> py_error + pyval" where
  "getattr ns name = (case ns name of None \<Rightarrow> Inl (AttributeError name) | Some v \<Rightarrow> Inr v)"

definition setattr :: "namespace \<Rightarrow> string \<Rightarrow> pyval \<Rightarrow> namespace" where
  "setattr ns name v = ns(name \<mapsto> v)"

section \<open>The argument declarations\<close>

text \<open>
  One \<^verbatim>\<open>parser.add_argument\<close> call is one \<open>argument\<close>: its option strings and the
  keywords the call writes. A keyword the call does not write is \<open>None\<close>
  (\<open>default_kw = None\<close>: the call has no \<^verbatim>\<open>default=\<close>; \<open>default_kw = Some PyNone\<close>: the
  call writes \<^verbatim>\<open>default=None\<close>). The \<^verbatim>\<open>help\<close> text is documentation only and left out.
\<close>

datatype arg_type = T_str | T_int | T_float | T_float_or_int

datatype arg_action = Store | Store_false

record argument =
  option_strings :: "string list"
  type_kw :: "arg_type option"
  default_kw :: "pyval option"
  choices_kw :: "pyval list option"
  dest_kw :: "string option"
  action_kw :: "arg_action option"

text \<open>\<^verbatim>\<open>cuml/kmeans.py\<close>, lines 19 to 27.\<close>

definition kmeans_arguments :: "argument list" where
  "kmeans_arguments =
    [\<lparr>option_strings = [''-i'', ''--filei'', ''--fileI'', ''--init''],
       type_kw = Some T_str, default_kw = None, choices_kw = None,
       dest_kw = None, action_kw = None\<rparr>,
     \<lparr>option_strings = [''-t'', ''--tol''],
       type_kw = Some T_float, default_kw = Some (PyFloat 0), choices_kw = None,
       dest_kw = None, action_kw = None\<rparr>,
     \<lparr>option_strings = [''--maxiter''],
       type_kw = Some T_int, default_kw = Some (PyInt 100), choices_kw = None,
       dest_kw = None, action_kw = None\<rparr>,
     \<lparr>option_strings = [''--samples-per-batch''],
       type_kw = Some T_int, default_kw = Some (PyInt 32768), choices_kw = None,
       dest_kw = None, action_kw = None\<rparr>,
     \<lparr>option_strings = [''--n-clusters''],
       type_kw = Some T_int, default_kw = None, choices_kw = None,
       dest_kw = None, action_kw = None\<rparr>]"

text \<open>\<^verbatim>\<open>cuml_bench/df_clsf.py\<close>, lines 28 to 48.\<close>

definition df_clsf_arguments :: "argument list" where
  "df_clsf_arguments =
    [\<lparr>option_strings = [''--criterion''],
       type_kw = Some T_str, default_kw = Some (PyStr ''gini''),
       choices_kw = Some [PyStr ''gini'', PyStr ''entropy''],
       dest_kw = None, action_kw = None\<rparr>,
     \<lparr>option_strings = [''--split-algorithm''],
       type_kw = Some T_str, default_kw = Some (PyStr ''hist''),
       choices_kw = Some [PyStr ''hist'', PyStr ''global_quantile''],
       dest_kw = None, action_kw = None\<rparr>,
     \<lparr>option_strings = [''--num-trees''],
       type_kw = Some T_int, default_kw = Some (PyInt 100), choices_kw = None,
       dest_kw = None, action_kw = None\<rparr>,
     \<lparr>option_strings = [''--max-features''],
       type_kw = Some T_float_or_int, default_kw = Some PyNone, choices_kw = None,
       dest_kw = None, action_kw = None\<rparr>,
     \<lparr>option_strings = [''--max-depth''],
       type_kw = Some T_int, default_kw = Some PyNone, choices_kw = None,
       dest_kw = None, action_kw = None\<rparr>,
     \<lparr>option_strings = [''--min-samples-split''],
       type_kw = Some T_float_or_int, default_kw = Some (PyInt 2), choices_kw = None,
       dest_kw = None, action_kw = None\<rparr>,
     \<lparr>option_strings = [''--max-leaf-nodes''],
       type_kw = Some T_int, default_kw = Some (PyInt (- 1)), choices_kw = None,
       dest_kw = None, action_kw = None\<rparr>,
     \<lparr>option_strings = [''--min-impurity-decrease''],
       type_kw = Some T_float, default_kw = Some (PyFloat 0), choices_kw = None,
       dest_kw = None, action_kw = None\<rparr>,
     \<lparr>option_strings = [''--no-bootstrap''],
       type_kw = None, default_kw = Some (PyBool True), choices_kw = None,
       dest_kw = Some ''bootstrap'', action_kw = Some Store_false\<rparr>]"

text \<open>A flag has a stated default when its declaration writes \<^verbatim>\<open>default=\<close>.\<close>

definition has_stated_default :: "argument \<Rightarrow> bool" where
  "has_stated_default a = (default_kw a \<noteq> None)"

section \<open>argparse: destinations, defaults, conversion and choices\<close>

text \<open>
  The attribute an option is stored under: the \<^verbatim>\<open>dest=\<close> keyword when written;
  otherwise argparse takes the first long option string (the first option string when
  there is no long one), strips the leading dashes and turns every other dash into an
  underscore.
\<close>

definition is_long :: "string \<Rightarrow> bool" where
  "is_long s = (take 2 s = ''--'')"

definition strip_dashes :: "string \<Rightarrow> string" where
  "strip_dashes s =
     map (\<lambda>c. if c = CHR ''-'' then CHR ''_'' else c) (dropWhile (\<lambda>c. c = CHR ''-'') s)"

definition dest :: "argument \<Rightarrow> string" where
  "dest a =
     (case dest_kw a of
        Some d \<Rightarrow> d
      | None \<Rightarrow>
          (case filter is_long (option_strings a) of
             l # _ \<Rightarrow> strip_dashes l
           | [] \<Rightarrow> (case option_strings a of s # _ \<Rightarrow> strip_dashes s | [] \<Rightarrow> [])))"

text \<open>
  Before it reads the command line argparse sets every destination that is not set
  yet to the declaration's default, which is \<^verbatim>\<open>None\<close> when the call writes none. (A
  string default is passed through the type function when the option is absent; the
  string defaults of both scripts have \<^verbatim>\<open>type=str\<close>, which returns them unchanged.)
\<close>

definition default_value :: "argument \<Rightarrow> pyval" where
  "default_value a = (case default_kw a of None \<Rightarrow> PyNone | Some v \<Rightarrow> v)"

fun set_defaults :: "argument list \<Rightarrow> namespace \<Rightarrow> namespace" where
  "set_defaults [] ns = ns"
| "set_defaults (a # as) ns =
     set_defaults as (if ns (dest a) = None then ns(dest a \<mapsto> default_value a) else ns)"

text \<open>
  The type function applied to an option's argument. \<^verbatim>\<open>str\<close> returns the string; what
  Python's \<^verbatim>\<open>int\<close> and \<^verbatim>\<open>float\<close> and \<^verbatim>\<open>bench.float_or_int\<close> make of a string is the
  parameter \<open>conv\<close>, with \<open>None\<close> for the exception argparse reports as a usage error.
\<close>

type_synonym converter = "arg_type \<Rightarrow> string \<Rightarrow> pyval option"

definition convert :: "converter \<Rightarrow> arg_type option \<Rightarrow> string \<Rightarrow> pyval option" where
  "convert conv t s =
     (case t of
        None \<Rightarrow> Some (PyStr s)
      | Some T_str \<Rightarrow> Some (PyStr s)
      | Some ty \<Rightarrow> conv ty s)"

definition in_choices :: "pyval list option \<Rightarrow> pyval \<Rightarrow> bool" where
  "in_choices cs v = (case cs of None \<Rightarrow> True | Some vs \<Rightarrow> List.member vs v)"

text \<open>
  The command line is the sequence of occurrences of options that argparse finds, each
  under the option string it is recognised as (an abbreviation already resolved), with its
  argument if it has one. How argparse splits \<^verbatim>\<open>sys.argv\<close> into occurrences is not
  modelled, and neither is the help option the parser adds by itself. An option no
  declaration has, a missing or surplus argument, a failed conversion and a value outside
  \<^verbatim>\<open>choices\<close> all end in \<^verbatim>\<open>parser.error\<close>, which prints the usage message and exits with
  status 2.
\<close>

type_synonym command_line = "(string \<times> string option) list"

definition usage_error :: py_error where
  "usage_error = SystemExit 2"

fun parse_options ::
  "converter \<Rightarrow> argument list \<Rightarrow> command_line \<Rightarrow> namespace \<Rightarrow> py_error + namespace" where
  "parse_options conv decls [] ns = Inr ns"
| "parse_options conv decls ((opt, arg) # rest) ns =
     (case find (\<lambda>a. List.member (option_strings a) opt) decls of
        None \<Rightarrow> Inl usage_error
      | Some a \<Rightarrow>
          (case action_kw a of
             Some Store_false \<Rightarrow>
               (case arg of
                  Some _ \<Rightarrow> Inl usage_error
                | None \<Rightarrow> parse_options conv decls rest (ns(dest a \<mapsto> PyBool False)))
           | _ \<Rightarrow>
               (case arg of
                  None \<Rightarrow> Inl usage_error
                | Some s \<Rightarrow>
                    (case convert conv (type_kw a) s of
                       None \<Rightarrow> Inl usage_error
                     | Some v \<Rightarrow>
                         if in_choices (choices_kw a) v
                         then parse_options conv decls rest (ns(dest a \<mapsto> v))
                         else Inl usage_error))))"

definition argparse_parse_args ::
  "converter \<Rightarrow> argument list \<Rightarrow> command_line \<Rightarrow> py_error + namespace" where
  "argparse_parse_args conv decls cl = parse_options conv decls cl (set_defaults decls Map.empty)"

text \<open>
  Modelled from the spec: \<^verbatim>\<open>bench.parse_args\<close> is not among the sources. The spec
  (System overview, Parameter Model) has it merge the script's declared options with
  a shared parameter namespace (dataset, dtype, seed, threads, loop counts) and parse
  the command line, every declared option with its type, choices and default, a usage
  error ending the process with a non-zero status. The shared fields are the parameter
  \<open>shared\<close>; a declared option's field is the parsed value or the declared default.
\<close>

definition parse_args ::
  "converter \<Rightarrow> argument list \<Rightarrow> namespace \<Rightarrow> command_line \<Rightarrow> py_error + namespace" where
  "parse_args conv decls shared cl =
     (case argparse_parse_args conv decls cl of
        Inl e \<Rightarrow> Inl e
      | Inr ns \<Rightarrow> Inr (shared ++ ns))"

section \<open>The timing harness\<close>

text \<open>
  Modelled from the spec: \<^verbatim>\<open>bench.measure_function_time\<close> is not among the sources.
  The spec (System overview, Timing Harness) has it execute the callable a configured
  number of times and return the elapsed time with the callable's result. The callable
  is a state transformer here (it may allocate and change objects); it runs once and
  then \<open>n\<close> more times, each run starting in the state the one before left, an
  exception ending the measurement. The elapsed time is a wall-clock reading: it is the
  parameter \<open>elapsed\<close>.
\<close>

fun measure_function_time ::
  "'t \<Rightarrow> nat \<Rightarrow> ('s \<Rightarrow> (py_error + 'r) \<times> 's) \<Rightarrow> 's \<Rightarrow> (py_error + 't \<times> 'r) \<times> 's" where
  "measure_function_time elapsed 0 func s =
     (case func s of
        (Inl e, s') \<Rightarrow> (Inl e, s')
      | (Inr val, s') \<Rightarrow> (Inr (elapsed, val), s'))"
| "measure_function_time elapsed (Suc n) func s =
     (case func s of
        (Inl e, s') \<Rightarrow> (Inl e, s')
      | (Inr val, s') \<Rightarrow> measure_function_time elapsed n func s')"

text \<open>
  What \<^verbatim>\<open>bench.print_output\<close> is called with. A script that reaches the call returns
  this record; the estimator is passed by reference.
\<close>

record ('x, 't, 'v) report =
  library :: string
  algorithm :: string
  stages :: "string list"
  columns :: "string list option"
  params_arg :: namespace
  functions_arg :: "string list"
  times :: "'t list"
  accuracy_type :: string
  accuracies :: "'v list"
  data :: "'x list"
  alg_instance :: nat

text \<open>
  A name used at module level is looked up among the names the module has bound (no
  builtin is called \<^verbatim>\<open>print_output\<close>, \<^verbatim>\<open>clf\<close> or \<^verbatim>\<open>bench\<close>).
\<close>

definition lookup_global :: "string list \<Rightarrow> string \<Rightarrow> py_error + unit" where
  "lookup_global bound name = (if List.member bound name then Inr () else Inl (NameError name))"

section \<open>The K-means script\<close>

subsection \<open>Arrays and numpy\<close>

text \<open>
  A training or test set is a table of rows, either a cudf DataFrame (it has
  \<^verbatim>\<open>iloc\<close>) or a numpy array. An array the script builds or loads is one row or a
  list of rows. \<^verbatim>\<open>np.random.randint\<close> returns one index when \<^verbatim>\<open>size\<close> is \<^verbatim>\<open>None\<close> and
  an index array otherwise.
\<close>

datatype 'a dataset = DataFrame "'a list list" | Array "'a list list"

datatype 'a ndarray = Vec "'a list" | Mat "'a list list"

datatype np_index = Scalar int | IndexArray "int list"

fun rows :: "'a dataset \<Rightarrow> 'a list list" where
  "rows (DataFrame rs) = rs"
| "rows (Array rs) = rs"

fun has_iloc :: "'a dataset \<Rightarrow> bool" where
  "has_iloc (DataFrame rs) = True"
| "has_iloc (Array rs) = False"

fun shape0 :: "'a ndarray \<Rightarrow> int" where
  "shape0 (Vec v) = int (length v)"
| "shape0 (Mat rs) = int (length rs)"

text \<open>
  Indexing a table by a row index: a negative index counts from the end, an index out
  of range raises IndexError. An index array selects one row per index, in order, the
  same row again when an index repeats.
\<close>

definition row_at :: "'a list list \<Rightarrow> int \<Rightarrow> py_error + 'a list" where
  "row_at rs i =
     (let n = int (length rs); j = (if i < 0 then n + i else i)
      in if 0 \<le> j \<and> j < n then Inr (rs ! nat j) else Inl IndexError)"

fun rows_at :: "'a list list \<Rightarrow> int list \<Rightarrow> py_error + 'a list list" where
  "rows_at rs [] = Inr []"
| "rows_at rs (i # idx) =
     (case row_at rs i of
        Inl e \<Rightarrow> Inl e
      | Inr r \<Rightarrow> (case rows_at rs idx of Inl e \<Rightarrow> Inl e | Inr rest \<Rightarrow> Inr (r # rest)))"

fun getitem :: "'a list list \<Rightarrow> np_index \<Rightarrow> py_error + 'a ndarray" where
  "getitem rs (Scalar i) = (case row_at rs i of Inl e \<Rightarrow> Inl e | Inr r \<Rightarrow> Inr (Vec r))"
| "getitem rs (IndexArray idx) =
     (case rows_at rs idx of Inl e \<Rightarrow> Inl e | Inr sel \<Rightarrow> Inr (Mat sel))"

text \<open>
  The numpy functions the script calls are parameters. \<open>random_seed v g\<close> is the
  state of the global generator after \<^verbatim>\<open>np.random.seed(v)\<close> in state \<open>g\<close>;
  \<open>random_randint g low high size\<close> is the draw and the state after it.
\<close>

record ('a, 'g) numpy =
  np_load :: "pyval \<Rightarrow> py_error + 'a ndarray"
  astype :: "'a ndarray \<Rightarrow> pyval \<Rightarrow> py_error + 'a ndarray"
  random_seed :: "pyval \<Rightarrow> 'g \<Rightarrow> py_error + 'g"
  random_randint :: "'g \<Rightarrow> int \<Rightarrow> int \<Rightarrow> pyval \<Rightarrow> (py_error + np_index) \<times> 'g"

subsection \<open>Initial centroids (lines 34 to 45)\<close>

text \<open>
  The value of \<^verbatim>\<open>X_init\<close> and of \<^verbatim>\<open>params\<close> after the branch, and the generator state.
  A DataFrame is indexed through \<^verbatim>\<open>iloc\<close> and converted to an array of values, an array
  is indexed directly: both select the rows at the drawn indices. A failed
  \<^verbatim>\<open>np.random.seed\<close> leaves the generator as it was.
\<close>

definition initial_centroids ::
  "('a, 'g) numpy \<Rightarrow> namespace \<Rightarrow> 'a dataset \<Rightarrow> 'g
     \<Rightarrow> (py_error + 'a ndarray \<times> namespace) \<times> 'g" where
  "initial_centroids np params X_train g =
     (case getattr params ''filei'' of
        Inl e \<Rightarrow> (Inl e, g)
      | Inr filei \<Rightarrow>
          if filei \<noteq> PyNone then
            (case np_load np filei of
               Inl e \<Rightarrow> (Inl e, g)
             | Inr loaded \<Rightarrow>
                 (case getattr params ''dtype'' of
                    Inl e \<Rightarrow> (Inl e, g)
                  | Inr dtype \<Rightarrow>
                      (case astype np loaded dtype of
                         Inl e \<Rightarrow> (Inl e, g)
                       | Inr X_init \<Rightarrow>
                           (Inr (X_init, setattr params ''n_clusters'' (PyInt (shape0 X_init))),
                            g))))
          else
            (case getattr params ''seed'' of
               Inl e \<Rightarrow> (Inl e, g)
             | Inr seed \<Rightarrow>
                 (case random_seed np seed g of
                    Inl e \<Rightarrow> (Inl e, g)
                  | Inr g1 \<Rightarrow>
                      (case getattr params ''n_clusters'' of
                         Inl e \<Rightarrow> (Inl e, g1)
                       | Inr n_clusters_arg \<Rightarrow>
                           (case random_randint np g1 0 (int (length (rows X_train))) n_clusters_arg of
                              (Inl e, g2) \<Rightarrow> (Inl e, g2)
                            | (Inr centroids_idx, g2) \<Rightarrow>
                                (case (if has_iloc X_train
                                       then getitem (rows X_train) centroids_idx
                                       else getitem (rows X_train) centroids_idx) of
                                   Inl e \<Rightarrow> (Inl e, g2)
                                 | Inr X_init \<Rightarrow> (Inr (X_init, params), g2)))))))"

subsection \<open>The estimator and the timed calls (lines 51 to 67)\<close>

text \<open>
  \<^verbatim>\<open>cuml.KMeans\<close> is a parameter: the constructor, what \<^verbatim>\<open>fit\<close> and \<^verbatim>\<open>predict\<close> make of
  an estimator's state (\<^verbatim>\<open>predict\<close> may change it), and \<open>inertia_attr\<close>, the value of
  \<^verbatim>\<open>float(alg.inertia_)\<close>. Estimators are objects: they live in a store, a list of
  states indexed by reference, and a constructor call appends a new one.
\<close>

record 'a kmeans_kwargs =
  n_clusters :: pyval
  tol :: pyval
  max_iter :: pyval
  init :: "'a ndarray"
  max_samples_per_batch :: pyval

record ('a, 'l, 'm, 'v) cuml_KMeans =
  KMeans :: "'a kmeans_kwargs \<Rightarrow> py_error + 'm"
  KMeans_fit :: "'m \<Rightarrow> 'a dataset \<Rightarrow> py_error + 'm"
  KMeans_predict :: "'m \<Rightarrow> 'a dataset \<Rightarrow> py_error + 'l \<times> 'm"
  inertia_attr :: "'m \<Rightarrow> py_error + 'v"

definition kmeans_init_kwargs :: "namespace \<Rightarrow> 'a ndarray \<Rightarrow> py_error + 'a kmeans_kwargs" where
  "kmeans_init_kwargs params X_init =
     (case getattr params ''n_clusters'' of
        Inl e \<Rightarrow> Inl e
      | Inr v_n_clusters \<Rightarrow>
          (case getattr params ''tol'' of
             Inl e \<Rightarrow> Inl e
           | Inr v_tol \<Rightarrow>
               (case getattr params ''maxiter'' of
                  Inl e \<Rightarrow> Inl e
                | Inr v_maxiter \<Rightarrow>
                    (case getattr params ''samples_per_batch'' of
                       Inl e \<Rightarrow> Inl e
                     | Inr v_batch \<Rightarrow>
                         Inr \<lparr>n_clusters = v_n_clusters, tol = v_tol, max_iter = v_maxiter,
                              init = X_init, max_samples_per_batch = v_batch\<rparr>))))"

definition kmeans_fit ::
  "('a, 'l, 'm, 'v) cuml_KMeans \<Rightarrow> namespace \<Rightarrow> 'a ndarray \<Rightarrow> 'a dataset \<Rightarrow> 'm list
     \<Rightarrow> (py_error + nat) \<times> 'm list" where
  "kmeans_fit cu params X_init X h =
     (case kmeans_init_kwargs params X_init of
        Inl e \<Rightarrow> (Inl e, h)
      | Inr kw \<Rightarrow>
          (case KMeans cu kw of
             Inl e \<Rightarrow> (Inl e, h)
           | Inr m \<Rightarrow>
               (let alg = length h; h1 = h @ [m]
                in case KMeans_fit cu m X of
                     Inl e \<Rightarrow> (Inl e, h1)
                   | Inr m' \<Rightarrow> (Inr alg, h1[alg := m']))))"

text \<open>The bound method \<^verbatim>\<open>kmeans.predict\<close>: every call acts on the object \<open>alg\<close>.\<close>

definition kmeans_predict ::
  "('a, 'l, 'm, 'v) cuml_KMeans \<Rightarrow> nat \<Rightarrow> 'a dataset \<Rightarrow> 'm list \<Rightarrow> (py_error + 'l) \<times> 'm list" where
  "kmeans_predict cu alg X h =
     (case KMeans_predict cu (h ! alg) X of
        Inl e \<Rightarrow> (Inl e, h)
      | Inr (labels, m') \<Rightarrow> (Inr labels, h[alg := m']))"

text \<open>
  Lines 62 to 67: the timed fit, \<^verbatim>\<open>train_inertia\<close>, the timed predict,
  \<^verbatim>\<open>test_inertia\<close>. The result is
  \<open>(fit_time, kmeans, train_inertia, predict_time, test_inertia)\<close>.
\<close>

definition kmeans_timed ::
  "('a, 'l, 'm, 'v) cuml_KMeans \<Rightarrow> 't \<times> 't \<Rightarrow> nat \<Rightarrow> namespace \<Rightarrow> 'a ndarray
     \<Rightarrow> 'a dataset \<Rightarrow> 'a dataset \<Rightarrow> 'm list
     \<Rightarrow> (py_error + 't \<times> nat \<times> 'v \<times> 't \<times> 'v) \<times> 'm list" where
  "kmeans_timed cu elapsed n params X_init X_train X_test h =
     (case measure_function_time (fst elapsed) n (kmeans_fit cu params X_init X_train) h of
        (Inl e, h1) \<Rightarrow> (Inl e, h1)
      | (Inr (fit_time, kmeans), h1) \<Rightarrow>
          (case inertia_attr cu (h1 ! kmeans) of
             Inl e \<Rightarrow> (Inl e, h1)
           | Inr train_inertia \<Rightarrow>
               (case measure_function_time (snd elapsed) n (kmeans_predict cu kmeans X_test) h1 of
                  (Inl e, h2) \<Rightarrow> (Inl e, h2)
                | (Inr (predict_time, _), h2) \<Rightarrow>
                    (case inertia_attr cu (h2 ! kmeans) of
                       Inl e \<Rightarrow> (Inl e, h2)
                     | Inr test_inertia \<Rightarrow>
                         (Inr (fit_time, kmeans, train_inertia, predict_time, test_inertia),
                          h2)))))"

subsection \<open>The whole script\<close>

text \<open>
  The names the module has bound when line 69 is reached: the imports (lines 5 to 12),
  then the assignments and the \<^verbatim>\<open>def\<close>.
\<close>

definition kmeans_bound_names :: "string list" where
  "kmeans_bound_names =
     [''argparse'', ''parse_args'', ''measure_function_time'', ''load_data'', ''print_output'',
      ''np'', ''KMeans'', ''cuml'', ''warnings'', ''parser'', ''params'', ''X_train'', ''X_test'',
      ''_'', ''X_init'', ''columns'', ''kmeans_fit'', ''fit_time'', ''kmeans'', ''train_inertia'',
      ''predict_time'', ''test_inertia'']"

definition kmeans_columns :: "string list" where
  "kmeans_columns =
     [''batch'', ''arch'', ''prefix'', ''function'', ''threads'', ''dtype'', ''size'',
      ''n_clusters'', ''time'']"

text \<open>
  \<^verbatim>\<open>bench.load_data\<close> is the parameter \<open>load_data\<close> (the script drops the labels it
  returns); \<open>loops\<close> is the number of repetitions the harness takes from \<^verbatim>\<open>params\<close>,
  \<open>g\<close> the state of numpy's generator when the script starts. The store is empty at
  the start. The logger and warning settings of lines 14 and 17 and the \<^verbatim>\<open>prefix\<close> and
  \<^verbatim>\<open>loop_types\<close> arguments of \<^verbatim>\<open>parse_args\<close> do not enter any value the script computes
  and are left out.
\<close>

definition kmeans_main ::
  "converter \<Rightarrow> namespace \<Rightarrow> command_line
     \<Rightarrow> (namespace \<Rightarrow> py_error + 'a dataset \<times> 'a dataset)
     \<Rightarrow> ('a, 'g) numpy \<Rightarrow> ('a, 'l, 'm, 'v) cuml_KMeans \<Rightarrow> 't \<times> 't \<Rightarrow> (namespace \<Rightarrow> nat) \<Rightarrow> 'g
     \<Rightarrow> py_error + ('a dataset, 't, 'v) report" where
  "kmeans_main conv shared cl load_data np cu elapsed loops g =
     (case parse_args conv kmeans_arguments shared cl of
        Inl e \<Rightarrow> Inl e
      | Inr params0 \<Rightarrow>
          (case load_data params0 of
             Inl e \<Rightarrow> Inl e
           | Inr (X_train, X_test) \<Rightarrow>
               (case initial_centroids np params0 X_train g of
                  (Inl e, _) \<Rightarrow> Inl e
                | (Inr (X_init, params), _) \<Rightarrow>
                    (case kmeans_timed cu elapsed (loops params) params X_init X_train X_test [] of
                       (Inl e, _) \<Rightarrow> Inl e
                     | (Inr (fit_time, kmeans, train_inertia, predict_time, test_inertia), _) \<Rightarrow>
                         (case lookup_global kmeans_bound_names ''print_output'' of
                            Inl e \<Rightarrow> Inl e
                          | Inr _ \<Rightarrow>
                              Inr \<lparr>library = ''cuml'', algorithm = ''kmeans'',
                                   stages = [''training'', ''prediction''],
                                   columns = Some kmeans_columns, params_arg = params,
                                   functions_arg = [''KMeans.fit'', ''KMeans.predict''],
                                   times = [fit_time, predict_time],
                                   accuracy_type = ''inertia'',
                                   accuracies = [train_inertia, test_inertia],
                                   data = [X_train, X_test], alg_instance = kmeans\<rparr>)))))"

section \<open>The classification script\<close>

subsection \<open>Translating the parameters (lines 55 to 65)\<close>

text \<open>
  The training labels are a DataFrame of integer labels (\<^verbatim>\<open>int_label=True\<close>), a list
  of columns here. \<^verbatim>\<open>y_train.columns[0]\<close> raises IndexError when there is no column;
  \<^verbatim>\<open>nunique\<close> counts the distinct values of the column.
\<close>

type_synonym labels = "int list list"

definition nunique_first_column :: "labels \<Rightarrow> py_error + int" where
  "nunique_first_column y =
     (case y of [] \<Rightarrow> Inl IndexError | col # _ \<Rightarrow> Inr (int (length (remdups col))))"

definition translate_params :: "namespace \<Rightarrow> labels \<Rightarrow> py_error + namespace" where
  "translate_params params y_train =
     (case getattr params ''criterion'' of
        Inl e \<Rightarrow> Inl e
      | Inr criterion \<Rightarrow>
          (let params1 =
                 (if criterion = PyStr ''gini''
                  then setattr params ''criterion'' (PyInt 0)
                  else setattr params ''criterion'' (PyInt 1))
           in case getattr params1 ''split_algorithm'' of
                Inl e \<Rightarrow> Inl e
              | Inr split_algorithm \<Rightarrow>
                  (let params2 =
                         (if split_algorithm = PyStr ''hist''
                          then setattr params1 ''split_algorithm'' (PyInt 0)
                          else setattr params1 ''split_algorithm'' (PyInt 1))
                   in case nunique_first_column y_train of
                        Inl e \<Rightarrow> Inl e
                      | Inr n \<Rightarrow> Inr (setattr params2 ''n_classes'' (PyInt n)))))"

subsection \<open>fit and predict (lines 68 to 86)\<close>

text \<open>
  \<^verbatim>\<open>cuml.ensemble.RandomForestClassifier\<close> is a parameter: the constructor and what
  \<^verbatim>\<open>fit\<close> and \<^verbatim>\<open>predict\<close> make of an estimator's state. \<open>version_minor\<close> is the value
  of \<^verbatim>\<open>int(cuml.__version__.split('.')[1])\<close>, an exception when the version string does not
  have that form.
\<close>

record rf_kwargs =
  split_criterion :: pyval
  split_algo :: pyval
  n_estimators :: pyval
  max_depth :: pyval
  max_features :: pyval
  min_rows_per_node :: pyval
  max_leaves :: pyval
  min_impurity_decrease :: pyval
  bootstrap :: pyval

record ('x, 'p, 'm) cuml_ensemble =
  RandomForestClassifier :: "rf_kwargs \<Rightarrow> py_error + 'm"
  RandomForestClassifier_fit :: "'m \<Rightarrow> 'x \<Rightarrow> labels \<Rightarrow> py_error + 'm"
  RandomForestClassifier_predict :: "'m \<Rightarrow> 'x \<Rightarrow> namespace \<Rightarrow> py_error + 'p \<times> 'm"
  version_minor :: "py_error + int"

text \<open>
  The module's global state: the binding of the global name \<^verbatim>\<open>clf\<close> (\<open>None\<close>: the name
  is not bound) and the store of estimator objects.
\<close>

record 'm globals =
  clf :: "nat option"
  objects :: "'m list"

definition rf_init_kwargs :: "namespace \<Rightarrow> py_error + rf_kwargs" where
  "rf_init_kwargs params =
     (case getattr params ''criterion'' of Inl e \<Rightarrow> Inl e | Inr v1 \<Rightarrow>
     (case getattr params ''split_algorithm'' of Inl e \<Rightarrow> Inl e | Inr v2 \<Rightarrow>
     (case getattr params ''num_trees'' of Inl e \<Rightarrow> Inl e | Inr v3 \<Rightarrow>
     (case getattr params ''max_depth'' of Inl e \<Rightarrow> Inl e | Inr v4 \<Rightarrow>
     (case getattr params ''max_features'' of Inl e \<Rightarrow> Inl e | Inr v5 \<Rightarrow>
     (case getattr params ''min_samples_split'' of Inl e \<Rightarrow> Inl e | Inr v6 \<Rightarrow>
     (case getattr params ''max_leaf_nodes'' of Inl e \<Rightarrow> Inl e | Inr v7 \<Rightarrow>
     (case getattr params ''min_impurity_decrease'' of Inl e \<Rightarrow> Inl e | Inr v8 \<Rightarrow>
     (case getattr params ''bootstrap'' of Inl e \<Rightarrow> Inl e | Inr v9 \<Rightarrow>
        Inr \<lparr>split_criterion = v1, split_algo = v2, n_estimators = v3, max_depth = v4,
             max_features = v5, min_rows_per_node = v6, max_leaves = v7,
             min_impurity_decrease = v8, bootstrap = v9\<rparr>)))))))))"

text \<open>
  \<^verbatim>\<open>fit\<close> binds \<^verbatim>\<open>clf\<close> to a new estimator before it calls the estimator's \<^verbatim>\<open>fit\<close>, so
  the name stays bound to the new object when that call raises. cuml's \<^verbatim>\<open>fit\<close> returns
  the estimator itself.
\<close>

definition fit ::
  "('x, 'p, 'm) cuml_ensemble \<Rightarrow> namespace \<Rightarrow> 'x \<Rightarrow> labels \<Rightarrow> 'm globals
     \<Rightarrow> (py_error + nat) \<times> 'm globals" where
  "fit cu params X y s =
     (case rf_init_kwargs params of
        Inl e \<Rightarrow> (Inl e, s)
      | Inr kw \<Rightarrow>
          (case RandomForestClassifier cu kw of
             Inl e \<Rightarrow> (Inl e, s)
           | Inr m \<Rightarrow>
               (let r = length (objects s);
                    s1 = \<lparr>clf = Some r, objects = objects s @ [m]\<rparr>
                in case RandomForestClassifier_fit cu m X y of
                     Inl e \<Rightarrow> (Inl e, s1)
                   | Inr m' \<Rightarrow> (Inr r, s1\<lparr>objects := (objects s1)[r := m']\<rparr>))))"

definition predict ::
  "('x, 'p, 'm) cuml_ensemble \<Rightarrow> namespace \<Rightarrow> 'x \<Rightarrow> 'm globals
     \<Rightarrow> (py_error + 'p) \<times> 'm globals" where
  "predict cu params X s =
     (let prediction_args = [''predict_model'' \<mapsto> PyStr ''GPU'']
      in case version_minor cu of
           Inl e \<Rightarrow> (Inl e, s)
         | Inr minor \<Rightarrow>
             (case (if minor \<le> 14
                    then (case getattr params ''n_classes'' of
                            Inl e \<Rightarrow> Inl e
                          | Inr n \<Rightarrow> Inr (prediction_args(''num_classes'' \<mapsto> n)))
                    else Inr prediction_args) of
                Inl e \<Rightarrow> (Inl e, s)
              | Inr prediction_args \<Rightarrow>
                  (case clf s of
                     None \<Rightarrow> (Inl (NameError ''clf''), s)
                   | Some r \<Rightarrow>
                       (case RandomForestClassifier_predict cu (objects s ! r) X prediction_args of
                          Inl e \<Rightarrow> (Inl e, s)
                        | Inr (y_pred, m') \<Rightarrow> (Inr y_pred, s\<lparr>objects := (objects s)[r := m']\<rparr>)))))"

subsection \<open>The whole script\<close>

text \<open>
  The names the module has bound when line 95 is reached: the imports (lines 17 to 23:
  \<^verbatim>\<open>import bench\<close> binds the one name \<^verbatim>\<open>bench\<close>), the assignments and the two
  \<^verbatim>\<open>def\<close>s. The global \<^verbatim>\<open>clf\<close> is bound by \<^verbatim>\<open>fit\<close> and kept in the state.
\<close>

definition df_clsf_bound_names :: "string list" where
  "df_clsf_bound_names =
     [''sys'', ''os'', ''argparse'', ''bench'', ''cuml'', ''RandomForestClassifier'', ''parser'',
      ''params'', ''X_train'', ''X_test'', ''y_train'', ''y_test'', ''fit'', ''predict'',
      ''fit_time'', ''_'', ''y_pred'', ''train_acc'', ''predict_time'', ''test_acc'']"

definition df_clsf_start :: "'m globals" where
  "df_clsf_start = \<lparr>clf = None, objects = []\<rparr>"

text \<open>
  \<^verbatim>\<open>bench.load_data\<close> and \<^verbatim>\<open>bench.accuracy_score\<close> are the parameters \<open>load_data\<close> and
  \<open>accuracy_score\<close>. The script returns what line 95 does and the global state it
  ends in; the callee \<^verbatim>\<open>print_output\<close> is looked up before its arguments are evaluated.
\<close>

definition df_clsf_main ::
  "converter \<Rightarrow> namespace \<Rightarrow> command_line
     \<Rightarrow> (namespace \<Rightarrow> py_error + 'x \<times> 'x \<times> labels \<times> labels)
     \<Rightarrow> ('x, 'p, 'm) cuml_ensemble \<Rightarrow> ('p \<Rightarrow> labels \<Rightarrow> py_error + real)
     \<Rightarrow> 't \<times> 't \<Rightarrow> (namespace \<Rightarrow> nat)
     \<Rightarrow> (py_error + ('x, 't, real) report) \<times> 'm globals" where
  "df_clsf_main conv shared cl load_data cu accuracy_score elapsed loops =
     (case parse_args conv df_clsf_arguments shared cl of
        Inl e \<Rightarrow> (Inl e, df_clsf_start)
      | Inr params0 \<Rightarrow>
     (case load_data params0 of
        Inl e \<Rightarrow> (Inl e, df_clsf_start)
      | Inr (X_train, X_test, y_train, y_test) \<Rightarrow>
     (case translate_params params0 y_train of
        Inl e \<Rightarrow> (Inl e, df_clsf_start)
      | Inr params \<Rightarrow>
     (case measure_function_time (fst elapsed) (loops params)
             (fit cu params X_train y_train) df_clsf_start of
        (Inl e, s1) \<Rightarrow> (Inl e, s1)
      | (Inr (fit_time, _), s1) \<Rightarrow>
     (case predict cu params X_train s1 of
        (Inl e, s2) \<Rightarrow> (Inl e, s2)
      | (Inr y_pred, s2) \<Rightarrow>
     (case accuracy_score y_pred y_train of
        Inl e \<Rightarrow> (Inl e, s2)
      | Inr score1 \<Rightarrow>
     (let train_acc = 100 * score1
      in case measure_function_time (snd elapsed) (loops params)
                (predict cu params X_test) s2 of
           (Inl e, s3) \<Rightarrow> (Inl e, s3)
         | (Inr (predict_time, y_pred), s3) \<Rightarrow>
     (case accuracy_score y_pred y_test of
        Inl e \<Rightarrow> (Inl e, s3)
      | Inr score2 \<Rightarrow>
     (let test_acc = 100 * score2
      in case lookup_global df_clsf_bound_names ''print_output'' of
           Inl e \<Rightarrow> (Inl e, s3)
         | Inr _ \<Rightarrow>
             (case clf s3 of
                None \<Rightarrow> (Inl (NameError ''clf''), s3)
              | Some r \<Rightarrow>
                  (Inr \<lparr>library = ''cuml'', algorithm = ''decision_forest_classification'',
                        stages = [''training'', ''prediction''], columns = None,
                        params_arg = params,
                        functions_arg = [''df_clsf.fit'', ''df_clsf.predict''],
                        times = [fit_time, predict_time], accuracy_type = ''accuracy[%]'',
                        accuracies = [train_acc, test_acc], data = [X_train, X_test],
                        alg_instance = r\<rparr>, s3)))))))))))"

section \<open>Concrete inputs\<close>

text \<open>
  Stand-ins for the external functions, used to run the definitions on concrete
  inputs: a converter for decimal digits, a generator whose state is a counter, and
  estimators whose state is the list of calls made on them.
\<close>

definition digits_conv :: converter where
  "digits_conv ty s =
     (if s \<noteq> [] \<and> list_all (\<lambda>c. List.member ''0123456789'' c) s
      then Some (PyInt (foldl (\<lambda>n c. 10 * n + (of_char c - 48)) 0 s))
      else None)"

definition counter_numpy :: "(int, int) numpy" where
  "counter_numpy =
     \<lparr>np_load = (\<lambda>path. if path = PyStr ''init.npy'' then Inr (Mat [[1, 1], [5, 5], [9, 9]])
                        else Inl (LibraryError ''FileNotFoundError'')),
      astype = (\<lambda>a dtype. Inr a),
      random_seed = (\<lambda>v g. case v of PyInt s \<Rightarrow> Inr s | _ \<Rightarrow> Inr (g + 1)),
      random_randint = (\<lambda>g low high sz.
         case sz of
           PyInt k \<Rightarrow>
             (if low < high \<and> 0 \<le> k
              then (Inr (IndexArray (map (\<lambda>i. low + (g + int i * int i) mod (high - low))
                                       [0..<nat k])), g + k)
              else (Inl (LibraryError ''ValueError''), g))
         | PyNone \<Rightarrow>
             (if low < high then (Inr (Scalar (low + g mod (high - low))), g + 1)
              else (Inl (LibraryError ''ValueError''), g))
         | _ \<Rightarrow> (Inl (LibraryError ''TypeError''), g))\<rparr>"

text \<open>A training set of five rows.\<close>

definition demo_train :: "int dataset" where
  "demo_train = Array [[0, 0], [1, 10], [2, 20], [3, 30], [4, 40]]"

text \<open>
  The parameters of the two scripts as they are when the timed calls start (the
  classification script's after the translation).
\<close>

definition demo_kmeans_params :: namespace where
  "demo_kmeans_params =
     [''n_clusters'' \<mapsto> PyInt 2, ''tol'' \<mapsto> PyFloat 0, ''maxiter'' \<mapsto> PyInt 100,
      ''samples_per_batch'' \<mapsto> PyInt 32768]"

definition demo_rf_params :: namespace where
  "demo_rf_params =
     [''criterion'' \<mapsto> PyInt 0, ''split_algorithm'' \<mapsto> PyInt 0, ''num_trees'' \<mapsto> PyInt 100,
      ''max_depth'' \<mapsto> PyNone, ''max_features'' \<mapsto> PyNone, ''min_samples_split'' \<mapsto> PyInt 2,
      ''max_leaf_nodes'' \<mapsto> PyInt (- 1), ''min_impurity_decrease'' \<mapsto> PyFloat 0,
      ''bootstrap'' \<mapsto> PyBool True, ''n_classes'' \<mapsto> PyInt 2]"

text \<open>
  The namespace the classification script's parser yields for an empty command line,
  a data loader that returns two training rows and one test row with their labels, and
  a stand-in for \<^verbatim>\<open>bench.accuracy_score\<close> on a non-empty label column: the share of
  predictions equal to the label.
\<close>

definition default_df_params :: namespace where
  "default_df_params =
     [''criterion'' \<mapsto> PyStr ''gini'', ''split_algorithm'' \<mapsto> PyStr ''hist'',
      ''num_trees'' \<mapsto> PyInt 100, ''max_features'' \<mapsto> PyNone, ''max_depth'' \<mapsto> PyNone,
      ''min_samples_split'' \<mapsto> PyInt 2, ''max_leaf_nodes'' \<mapsto> PyInt (- 1),
      ''min_impurity_decrease'' \<mapsto> PyFloat 0, ''bootstrap'' \<mapsto> PyBool True]"

definition demo_load_data ::
  "namespace \<Rightarrow> py_error + int list list \<times> int list list \<times> labels \<times> labels" where
  "demo_load_data params = Inr ([[0, 0], [4, 40]], [[1, 1]], [[0, 1]], [[0]])"

definition exact_matches :: "int list \<Rightarrow> labels \<Rightarrow> py_error + real" where
  "exact_matches y_pred y =
     (case y of
        [] \<Rightarrow> Inl IndexError
      | col # _ \<Rightarrow>
          if col = [] then Inl (LibraryError ''nan'')
          else Inr (real (length (filter (\<lambda>(a, b). a = b) (zip y_pred col))) / real (length col)))"

datatype call = Constructed | Fitted | Predicted

definition log_KMeans :: "(int, nat, call list, nat) cuml_KMeans" where
  "log_KMeans =
     \<lparr>KMeans = (\<lambda>kw. Inr [Constructed]),
      KMeans_fit = (\<lambda>m X. if List.member m Fitted then Inl (AttributeError ''handle'')
                           else Inr (m @ [Fitted])),
      KMeans_predict = (\<lambda>m X. if List.member m Fitted then Inr (0, m @ [Predicted])
                               else Inl (LibraryError ''NotFittedError'')),
      inertia_attr = (\<lambda>m. if List.member m Fitted then Inr (length m)
                           else Inl (AttributeError ''inertia_''))\<rparr>"

definition log_ensemble :: "(int list list, int list, call list) cuml_ensemble" where
  "log_ensemble =
     \<lparr>RandomForestClassifier = (\<lambda>kw. Inr [Constructed]),
      RandomForestClassifier_fit = (\<lambda>m X y. Inr (m @ [Fitted])),
      RandomForestClassifier_predict = (\<lambda>m X args. Inr (map (\<lambda>row. 0) X, m @ [Predicted])),
      version_minor = Inr 14\<rparr>"

section \<open>Properties of the declarations\<close>

lemma dest_kmeans:
  "map dest kmeans_arguments =
     [''filei'', ''tol'', ''maxiter'', ''samples_per_batch'', ''n_clusters'']"
  by (simp add: kmeans_arguments_def dest_def is_long_def strip_dashes_def)

lemma dest_df_clsf:
  "map dest df_clsf_arguments =
     [''criterion'', ''split_algorithm'', ''num_trees'', ''max_features'', ''max_depth'',
      ''min_samples_split'', ''max_leaf_nodes'', ''min_impurity_decrease'', ''bootstrap'']"
  by (simp add: df_clsf_arguments_def dest_def is_long_def strip_dashes_def)

text \<open>
  C6, as the spec states it: every flag the two scripts declare has a stated default.
  It fails: the declarations of \<^verbatim>\<open>--filei\<close> and \<^verbatim>\<open>--n-clusters\<close> write no
  \<^verbatim>\<open>default=\<close>.
\<close>

theorem C6_counterexample:
  "\<not> list_all has_stated_default (kmeans_arguments @ df_clsf_arguments)"
  by (simp add: kmeans_arguments_def has_stated_default_def)

text \<open>
  C6, amended: every flag of the classification script has a stated default; in the
  K-means script \<^verbatim>\<open>--tol\<close>, \<^verbatim>\<open>--maxiter\<close> and \<^verbatim>\<open>--samples-per-batch\<close> have one, while
  \<^verbatim>\<open>--filei\<close> and \<^verbatim>\<open>--n-clusters\<close> state none, so that argparse sets \<^verbatim>\<open>params.filei\<close>
  and \<^verbatim>\<open>params.n_clusters\<close> to \<^verbatim>\<open>None\<close> when the flag is omitted.
\<close>

theorem C6_stated_defaults:
  "list_all has_stated_default df_clsf_arguments \<and>
   map dest (filter has_stated_default kmeans_arguments) =
     [''tol'', ''maxiter'', ''samples_per_batch''] \<and>
   map dest (filter (\<lambda>a. \<not> has_stated_default a) kmeans_arguments) =
     [''filei'', ''n_clusters''] \<and>
   set_defaults kmeans_arguments Map.empty ''filei'' = Some PyNone \<and>
   set_defaults kmeans_arguments Map.empty ''n_clusters'' = Some PyNone"
  by (simp add: kmeans_arguments_def df_clsf_arguments_def has_stated_default_def dest_def
      is_long_def strip_dashes_def default_value_def)

section \<open>Assignments to the parameters\<close>

lemma translate_params_frame:
  assumes "translate_params q y = Inr q'"
  shows "k \<noteq> ''criterion'' \<Longrightarrow> k \<noteq> ''split_algorithm'' \<Longrightarrow> k \<noteq> ''n_classes'' \<Longrightarrow> q' k = q k"
    and "q' ''criterion'' = Some (PyInt 0) \<or> q' ''criterion'' = Some (PyInt 1)"
    and "q' ''split_algorithm'' = Some (PyInt 0) \<or> q' ''split_algorithm'' = Some (PyInt 1)"
    and "\<exists>n. q' ''n_classes'' = Some (PyInt n)"
  using assms
  by (auto simp: translate_params_def getattr_def setattr_def Let_def
      split: option.splits sum.splits if_splits)

lemma initial_centroids_frame:
  assumes "initial_centroids np p X g = (Inr (X_init, p'), g')"
  shows "k \<noteq> ''n_clusters'' \<Longrightarrow> p' k = p k"
    and "p ''filei'' = Some PyNone \<Longrightarrow> p' = p"
    and "p ''filei'' \<noteq> Some PyNone \<Longrightarrow> p' ''n_clusters'' = Some (PyInt (shape0 X_init))"
  using assms
  by (auto simp: initial_centroids_def getattr_def setattr_def
      split: option.splits sum.splits if_splits prod.splits)

text \<open>
  C4, as the spec states it: no field of \<^verbatim>\<open>params\<close> is assigned after \<^verbatim>\<open>parse_args\<close>
  returns. It fails in both scripts: the classification script replaces
  \<^verbatim>\<open>params.criterion\<close> and \<^verbatim>\<open>params.split_algorithm\<close> by integer codes and adds
  \<^verbatim>\<open>params.n_classes\<close>, and the K-means script overwrites \<^verbatim>\<open>params.n_clusters\<close> when an
  initial-centroids file is given.
\<close>

theorem C4_counterexample:
  "(case translate_params [''criterion'' \<mapsto> PyStr ''gini'', ''split_algorithm'' \<mapsto> PyStr ''hist'']
           [[0, 1, 1]] of
      Inl e \<Rightarrow> False
    | Inr p \<Rightarrow> p ''criterion'' = Some (PyInt 0) \<and> p ''split_algorithm'' = Some (PyInt 0) \<and>
               p ''n_classes'' = Some (PyInt 2)) \<and>
   (case initial_centroids counter_numpy
           [''filei'' \<mapsto> PyStr ''init.npy'', ''dtype'' \<mapsto> PyStr ''float32'', ''n_clusters'' \<mapsto> PyNone]
           (Array [[0, 0]]) 0 of
      (Inl e, g) \<Rightarrow> False
    | (Inr (X_init, p), g) \<Rightarrow> p ''n_clusters'' = Some (PyInt 3))"
  by (simp add: translate_params_def getattr_def setattr_def nunique_first_column_def
      initial_centroids_def counter_numpy_def)

text \<open>
  C4, amended: after \<^verbatim>\<open>parse_args\<close> returns, the scripts assign \<^verbatim>\<open>params\<close> at fixed
  places only. The K-means script assigns \<^verbatim>\<open>params.n_clusters\<close> (the row count of the
  loaded array) when \<^verbatim>\<open>params.filei\<close> is not \<^verbatim>\<open>None\<close> and nothing otherwise; the
  classification script sets \<^verbatim>\<open>params.criterion\<close> and \<^verbatim>\<open>params.split_algorithm\<close> to
  the code 0 or 1 and \<^verbatim>\<open>params.n_classes\<close> to an integer. Every other field keeps the
  value it has when \<^verbatim>\<open>parse_args\<close> returns. (\<open>kmeans_fit\<close>, \<open>fit\<close> and \<open>predict\<close> only
  read \<^verbatim>\<open>params\<close>.)
\<close>

theorem C4_params_assigned:
  "(initial_centroids np p X g = (Inr (X_init, p'), g') \<longrightarrow>
      (\<forall>k. k \<noteq> ''n_clusters'' \<longrightarrow> p' k = p k) \<and>
      (p ''filei'' = Some PyNone \<longrightarrow> p' = p) \<and>
      (p ''filei'' \<noteq> Some PyNone \<longrightarrow> p' ''n_clusters'' = Some (PyInt (shape0 X_init)))) \<and>
   (translate_params q y = Inr q' \<longrightarrow>
      (\<forall>k. k \<noteq> ''criterion'' \<and> k \<noteq> ''split_algorithm'' \<and> k \<noteq> ''n_classes'' \<longrightarrow> q' k = q k) \<and>
      (q' ''criterion'' = Some (PyInt 0) \<or> q' ''criterion'' = Some (PyInt 1)) \<and>
      (q' ''split_algorithm'' = Some (PyInt 0) \<or> q' ''split_algorithm'' = Some (PyInt 1)) \<and>
      (\<exists>n. q' ''n_classes'' = Some (PyInt n)))"
proof (intro conjI impI allI)
  assume a: "initial_centroids np p X g = (Inr (X_init, p'), g')"
  show "\<And>k. k \<noteq> ''n_clusters'' \<Longrightarrow> p' k = p k"
    by (rule initial_centroids_frame(1)[OF a])
  show "p ''filei'' = Some PyNone \<Longrightarrow> p' = p"
    by (rule initial_centroids_frame(2)[OF a])
  show "p ''filei'' \<noteq> Some PyNone \<Longrightarrow> p' ''n_clusters'' = Some (PyInt (shape0 X_init))"
    by (rule initial_centroids_frame(3)[OF a])
next
  assume b: "translate_params q y = Inr q'"
  show "\<And>k. k \<noteq> ''criterion'' \<and> k \<noteq> ''split_algorithm'' \<and> k \<noteq> ''n_classes'' \<Longrightarrow> q' k = q k"
    using translate_params_frame(1)[OF b] by blast
  show "q' ''criterion'' = Some (PyInt 0) \<or> q' ''criterion'' = Some (PyInt 1)"
    by (rule translate_params_frame(2)[OF b])
  show "q' ''split_algorithm'' = Some (PyInt 0) \<or> q' ''split_algorithm'' = Some (PyInt 1)"
    by (rule translate_params_frame(3)[OF b])
  show "\<exists>n. q' ''n_classes'' = Some (PyInt n)"
    by (rule translate_params_frame(4)[OF b])
qed

theorem C4_params_assigned_witness:
  "initial_centroids counter_numpy
      [''filei'' \<mapsto> PyStr ''init.npy'', ''dtype'' \<mapsto> PyStr ''float32'', ''n_clusters'' \<mapsto> PyNone]
      (Array [[0, 0]]) 0 =
     (Inr (Mat [[1, 1], [5, 5], [9, 9]],
        [''filei'' \<mapsto> PyStr ''init.npy'', ''dtype'' \<mapsto> PyStr ''float32'', ''n_clusters'' \<mapsto> PyInt 3]), 0) \<and>
   translate_params [''criterion'' \<mapsto> PyStr ''entropy'', ''split_algorithm'' \<mapsto> PyStr ''hist'',
                     ''num_trees'' \<mapsto> PyInt 100] [[0, 1, 1]] =
     Inr [''criterion'' \<mapsto> PyInt 1, ''split_algorithm'' \<mapsto> PyInt 0,
          ''num_trees'' \<mapsto> PyInt 100, ''n_classes'' \<mapsto> PyInt 2] \<and>
   [''criterion'' \<mapsto> PyInt 1, ''split_algorithm'' \<mapsto> PyInt 0,
    ''num_trees'' \<mapsto> PyInt 100, ''n_classes'' \<mapsto> PyInt 2] ''num_trees'' = Some (PyInt 100)"
proof -
  let ?p = "[''filei'' \<mapsto> PyStr ''init.npy'', ''dtype'' \<mapsto> PyStr ''float32'', ''n_clusters'' \<mapsto> PyNone]"
  let ?q = "[''criterion'' \<mapsto> PyStr ''entropy'', ''split_algorithm'' \<mapsto> PyStr ''hist'',
             ''num_trees'' \<mapsto> PyInt 100]"
  let ?q' = "[''criterion'' \<mapsto> PyInt 1, ''split_algorithm'' \<mapsto> PyInt 0,
          ''num_trees'' \<mapsto> PyInt 100, ''n_classes'' \<mapsto> PyInt 2]"
  have a: "initial_centroids counter_numpy ?p (Array [[0, 0]]) 0 =
     (Inr (Mat [[1, 1], [5, 5], [9, 9]], ?p(''n_clusters'' \<mapsto> PyInt 3)), 0)"
    by (simp add: initial_centroids_def getattr_def setattr_def counter_numpy_def)
  have b: "translate_params ?q [[0, 1, 1]] = Inr ?q'"
    by (auto simp add: translate_params_def getattr_def setattr_def nunique_first_column_def)
  from C4_params_assigned[of counter_numpy ?p "Array [[0, 0]]" 0 "Mat [[1, 1], [5, 5], [9, 9]]"
      "?p(''n_clusters'' \<mapsto> PyInt 3)" 0 ?q "[[0, 1, 1]]" ?q'] a b
  show ?thesis by simp
qed

section \<open>The initial centroids\<close>

lemma rows_at_in_range:
  "list_all (\<lambda>i. 0 \<le> i \<and> i < int (length rs)) idx \<Longrightarrow>
     rows_at rs idx = Inr (map (\<lambda>i. rs ! nat i) idx)"
  by (induction idx) (simp_all add: row_at_def)

lemma demo_draw:
  "random_randint counter_numpy 42 0 (int (length (rows demo_train))) (PyInt 4) =
     (Inr (IndexArray [2, 3, 1, 1]), 46)"
  by (simp add: counter_numpy_def demo_train_def upt_rec)

text \<open>
  C1: when \<^verbatim>\<open>params.filei\<close> is given, \<^verbatim>\<open>X_init\<close> is the loaded array (converted to
  \<^verbatim>\<open>params.dtype\<close>) and \<^verbatim>\<open>params.n_clusters\<close> becomes its row count, the generator
  untouched. Otherwise the generator is seeded with \<^verbatim>\<open>params.seed\<close>, the indices are
  drawn by \<^verbatim>\<open>randint(0, number of training rows, size=params.n_clusters)\<close> from the seeded
  state, and \<^verbatim>\<open>X_init\<close> holds the training row at each drawn index, in the order drawn and
  once per occurrence, so an index drawn twice gives the same centroid twice;
  \<^verbatim>\<open>params\<close> is unchanged. (That the draw is uniform is numpy's; the script adds no
  filter that would remove a repeated index.)
\<close>

theorem C1_initial_centroids:
  "(p ''filei'' = Some path \<and> path \<noteq> PyNone \<and> np_load np path = Inr loaded \<and>
    p ''dtype'' = Some dtype \<and> astype np loaded dtype = Inr X_init \<longrightarrow>
      initial_centroids np p X_train g =
        (Inr (X_init, p(''n_clusters'' \<mapsto> PyInt (shape0 X_init))), g)) \<and>
   (p ''filei'' = Some PyNone \<and> p ''seed'' = Some seed \<and> random_seed np seed g = Inr g1 \<and>
    p ''n_clusters'' = Some k \<and>
    random_randint np g1 0 (int (length (rows X_train))) k = (Inr (IndexArray idx), g2) \<and>
    list_all (\<lambda>i. 0 \<le> i \<and> i < int (length (rows X_train))) idx \<longrightarrow>
      initial_centroids np p X_train g =
        (Inr (Mat (map (\<lambda>i. rows X_train ! nat i) idx), p), g2))"
proof (intro conjI impI)
  assume "p ''filei'' = Some path \<and> path \<noteq> PyNone \<and> np_load np path = Inr loaded \<and>
    p ''dtype'' = Some dtype \<and> astype np loaded dtype = Inr X_init"
  then show "initial_centroids np p X_train g =
        (Inr (X_init, p(''n_clusters'' \<mapsto> PyInt (shape0 X_init))), g)"
    by (simp add: initial_centroids_def getattr_def setattr_def)
next
  assume a: "p ''filei'' = Some PyNone \<and> p ''seed'' = Some seed \<and> random_seed np seed g = Inr g1 \<and>
    p ''n_clusters'' = Some k \<and>
    random_randint np g1 0 (int (length (rows X_train))) k = (Inr (IndexArray idx), g2) \<and>
    list_all (\<lambda>i. 0 \<le> i \<and> i < int (length (rows X_train))) idx"
  then have "rows_at (rows X_train) idx = Inr (map (\<lambda>i. rows X_train ! nat i) idx)"
    by (simp add: rows_at_in_range)
  with a show "initial_centroids np p X_train g =
        (Inr (Mat (map (\<lambda>i. rows X_train ! nat i) idx), p), g2)"
    by (simp add: initial_centroids_def getattr_def)
qed

theorem C1_initial_centroids_witness:
  "initial_centroids counter_numpy
      [''filei'' \<mapsto> PyStr ''init.npy'', ''dtype'' \<mapsto> PyStr ''float32'', ''n_clusters'' \<mapsto> PyNone]
      demo_train 0 =
     (Inr (Mat [[1, 1], [5, 5], [9, 9]],
        [''filei'' \<mapsto> PyStr ''init.npy'', ''dtype'' \<mapsto> PyStr ''float32'', ''n_clusters'' \<mapsto> PyInt 3]), 0) \<and>
   initial_centroids counter_numpy
      [''filei'' \<mapsto> PyNone, ''seed'' \<mapsto> PyInt 42, ''n_clusters'' \<mapsto> PyInt 4] demo_train 0 =
     (Inr (Mat [[2, 20], [3, 30], [1, 10], [1, 10]],
        [''filei'' \<mapsto> PyNone, ''seed'' \<mapsto> PyInt 42, ''n_clusters'' \<mapsto> PyInt 4]), 46)"
proof -
  let ?p1 = "[''filei'' \<mapsto> PyStr ''init.npy'', ''dtype'' \<mapsto> PyStr ''float32'',
              ''n_clusters'' \<mapsto> PyNone]"
  let ?p2 = "[''filei'' \<mapsto> PyNone, ''seed'' \<mapsto> PyInt 42, ''n_clusters'' \<mapsto> PyInt 4]"
  have load: "np_load counter_numpy (PyStr ''init.npy'') = Inr (Mat [[1, 1], [5, 5], [9, 9]])"
    and cast: "astype counter_numpy (Mat [[1, 1], [5, 5], [9, 9]]) (PyStr ''float32'') =
                 Inr (Mat [[1, 1], [5, 5], [9, 9]])"
    and seeded: "random_seed counter_numpy (PyInt 42) 0 = Inr 42"
    by (simp_all add: counter_numpy_def)
  have range: "list_all (\<lambda>i. 0 \<le> i \<and> i < int (length (rows demo_train))) [2, 3, 1, 1]"
    by (simp add: demo_train_def)
  have sel: "map (\<lambda>i. rows demo_train ! nat i) [2, 3, 1, 1] = [[2, 20], [3, 30], [1, 10], [1, 10]]"
    by (simp add: demo_train_def)
  have "initial_centroids counter_numpy ?p1 demo_train 0 =
     (Inr (Mat [[1, 1], [5, 5], [9, 9]], ?p1(''n_clusters'' \<mapsto> PyInt 3)), 0)"
    using C1_initial_centroids[of ?p1 "PyStr ''init.npy''" counter_numpy
        "Mat [[1, 1], [5, 5], [9, 9]]" "PyStr ''float32''" "Mat [[1, 1], [5, 5], [9, 9]]"
        demo_train 0] load cast
    by simp
  moreover have "initial_centroids counter_numpy ?p2 demo_train 0 =
     (Inr (Mat [[2, 20], [3, 30], [1, 10], [1, 10]], ?p2), 46)"
    using C1_initial_centroids[of ?p2 _ counter_numpy _ _ _ demo_train 0 "PyInt 42" 42
        "PyInt 4" "[2, 3, 1, 1]" 46] seeded demo_draw range sel
    by simp
  ultimately show ?thesis by simp
qed

text \<open>
  C5: in the branch without an initial-centroids file, the initial centroids (or the
  exception raised) are the same for any two runs that agree on the seed, on
  \<^verbatim>\<open>params.n_clusters\<close> and on the training set, whatever state the generator is in when
  each run starts, provided \<^verbatim>\<open>np.random.seed\<close> with that seed sets a state that does
  not depend on the state before (numpy's contract for an integer seed).
\<close>

theorem C5_determinism:
  assumes "p ''filei'' = Some PyNone" and "p' ''filei'' = Some PyNone"
    and "p ''seed'' = Some seed" and "p' ''seed'' = Some seed"
    and "p' ''n_clusters'' = p ''n_clusters''"
    and "\<forall>g g'. random_seed np seed g = random_seed np seed g'"
  shows "map_sum id fst (fst (initial_centroids np p X_train g)) =
         map_sum id fst (fst (initial_centroids np p' X_train g'))"
proof -
  from assms(6) have "random_seed np seed g = random_seed np seed g'" by blast
  with assms(1-5) show ?thesis
    by (simp add: initial_centroids_def getattr_def split: sum.splits prod.splits option.splits)
qed

theorem C5_determinism_witness:
  "(\<forall>g g'. random_seed counter_numpy (PyInt 42) g = random_seed counter_numpy (PyInt 42) g') \<and>
   map_sum id fst (fst (initial_centroids counter_numpy
          [''filei'' \<mapsto> PyNone, ''seed'' \<mapsto> PyInt 42, ''n_clusters'' \<mapsto> PyInt 4] demo_train 0)) =
   map_sum id fst (fst (initial_centroids counter_numpy
          [''filei'' \<mapsto> PyNone, ''seed'' \<mapsto> PyInt 42, ''n_clusters'' \<mapsto> PyInt 4,
           ''tol'' \<mapsto> PyFloat 0] demo_train 7))"
proof -
  let ?p = "[''filei'' \<mapsto> PyNone, ''seed'' \<mapsto> PyInt 42, ''n_clusters'' \<mapsto> PyInt 4]"
  let ?p' = "[''filei'' \<mapsto> PyNone, ''seed'' \<mapsto> PyInt 42, ''n_clusters'' \<mapsto> PyInt 4,
              ''tol'' \<mapsto> PyFloat 0]"
  have contract:
    "\<forall>g g'. random_seed counter_numpy (PyInt 42) g = random_seed counter_numpy (PyInt 42) g'"
    by (simp add: counter_numpy_def)
  have "?p ''filei'' = Some PyNone" and "?p' ''filei'' = Some PyNone"
    and "?p ''seed'' = Some (PyInt 42)" and "?p' ''seed'' = Some (PyInt 42)"
    and "?p' ''n_clusters'' = ?p ''n_clusters''"
    by simp_all
  from C5_determinism[OF this contract, of demo_train 0 7] contract
  show ?thesis by blast
qed

section \<open>The timed fit builds a new estimator on every call\<close>

lemma kmeans_fit_Inr:
  assumes "kmeans_fit cu p Xi X h = (Inr r, h')"
  shows "r = length h" and "length h' = Suc (length h)" and "take (length h) h' = h"
    and "\<exists>kw m. kmeans_init_kwargs p Xi = Inr kw \<and> KMeans cu kw = Inr m \<and>
           KMeans_fit cu m X = Inr (h' ! r)"
  using assms
  by (auto simp: kmeans_fit_def Let_def split: sum.splits)

lemma measure_kmeans_fit:
  "measure_function_time el n (kmeans_fit cu p Xi X) h = (Inr (t, r), h') \<Longrightarrow>
     r = length h + n \<and> length h' = Suc (length h + n) \<and> take (length h) h' = h \<and>
     (\<exists>kw m. kmeans_init_kwargs p Xi = Inr kw \<and> KMeans cu kw = Inr m \<and>
        KMeans_fit cu m X = Inr (h' ! r))"
proof (induction n arbitrary: h)
  case 0
  then obtain r0 where f: "kmeans_fit cu p Xi X h = (Inr r0, h')" and "r0 = r"
    by (auto split: prod.splits sum.splits)
  with kmeans_fit_Inr[OF f] show ?case by simp
next
  case (Suc n)
  then obtain r0 h0 where f: "kmeans_fit cu p Xi X h = (Inr r0, h0)"
    and rest: "measure_function_time el n (kmeans_fit cu p Xi X) h0 = (Inr (t, r), h')"
    by (auto split: prod.splits sum.splits)
  note ih = Suc.IH[OF rest]
  have len: "length h0 = Suc (length h)" and pre: "take (length h) h0 = h"
    using kmeans_fit_Inr[OF f] by simp_all
  have "take (length h) h' = take (length h) (take (length h0) h')"
    by (simp add: len min_def)
  with ih pre have "take (length h) h' = h" by simp
  with ih len show ?case by auto
qed

lemma fit_Inr:
  assumes "fit rf q X y s = (Inr r, s')"
  shows "r = length (objects s)" and "length (objects s') = Suc (length (objects s))"
    and "take (length (objects s)) (objects s') = objects s" and "clf s' = Some r"
    and "\<exists>kw m. rf_init_kwargs q = Inr kw \<and> RandomForestClassifier rf kw = Inr m \<and>
           RandomForestClassifier_fit rf m X y = Inr (objects s' ! r)"
  using assms
  by (auto simp: fit_def Let_def split: sum.splits)

lemma measure_fit:
  "measure_function_time el n (fit rf q X y) s = (Inr (t, r), s') \<Longrightarrow>
     r = length (objects s) + n \<and> length (objects s') = Suc (length (objects s) + n) \<and>
     take (length (objects s)) (objects s') = objects s \<and> clf s' = Some r \<and>
     (\<exists>kw m. rf_init_kwargs q = Inr kw \<and> RandomForestClassifier rf kw = Inr m \<and>
        RandomForestClassifier_fit rf m X y = Inr (objects s' ! r))"
proof (induction n arbitrary: s)
  case 0
  then obtain r0 where f: "fit rf q X y s = (Inr r0, s')" and "r0 = r"
    by (auto split: prod.splits sum.splits)
  with fit_Inr[OF f] show ?case by simp
next
  case (Suc n)
  then obtain r0 s0 where f: "fit rf q X y s = (Inr r0, s0)"
    and rest: "measure_function_time el n (fit rf q X y) s0 = (Inr (t, r), s')"
    by (auto split: prod.splits sum.splits)
  note ih = Suc.IH[OF rest]
  have len: "length (objects s0) = Suc (length (objects s))"
    and pre: "take (length (objects s)) (objects s0) = objects s"
    using fit_Inr[OF f] by simp_all
  have "take (length (objects s)) (objects s') =
        take (length (objects s)) (take (length (objects s0)) (objects s'))"
    by (simp add: len min_def)
  with ih pre have "take (length (objects s)) (objects s') = objects s" by simp
  with ih len show ?case by auto
qed

lemma demo_kmeans_fit_twice:
  "measure_function_time (0::nat) (Suc 0)
      (kmeans_fit log_KMeans demo_kmeans_params (Mat [[0, 0], [4, 40]]) demo_train) [] =
     (Inr (0, 1), [[Constructed, Fitted], [Constructed, Fitted]])"
  by (simp add: kmeans_fit_def kmeans_init_kwargs_def getattr_def demo_kmeans_params_def
      log_KMeans_def)

lemma demo_fit_twice:
  "measure_function_time (0::nat) (Suc 0)
      (fit log_ensemble demo_rf_params [[0, 0], [4, 40]] [[0, 1]]) df_clsf_start =
     (Inr (0, 1), \<lparr>clf = Some 1, objects = [[Constructed, Fitted], [Constructed, Fitted]]\<rparr>)"
  by (simp add: fit_def rf_init_kwargs_def getattr_def demo_rf_params_def
      log_ensemble_def df_clsf_start_def)

text \<open>
  C8: every call of \<open>kmeans_fit\<close> and of \<open>fit\<close> constructs a new estimator object. When
  the harness runs the callable \<open>n + 1\<close> times, starting with a store of \<open>length h\<close>
  objects, the run allocates \<open>n + 1\<close> new references, the estimator it ends with is the one
  at the last of them, every object that was in the store before is unchanged, and the state
  of the final estimator is what the library's \<^verbatim>\<open>fit\<close> makes of a newly constructed
  estimator: no earlier fit enters it. In the classification script the global \<^verbatim>\<open>clf\<close>, which
  \<open>predict\<close> reads, is bound to that estimator.
\<close>

theorem C8_fresh_estimator:
  "(measure_function_time el n (kmeans_fit cu p Xi X) h = (Inr (t, alg), h') \<longrightarrow>
      alg = length h + n \<and> length h' = Suc (length h + n) \<and> take (length h) h' = h \<and>
      (\<exists>kw m. kmeans_init_kwargs p Xi = Inr kw \<and> KMeans cu kw = Inr m \<and>
         KMeans_fit cu m X = Inr (h' ! alg))) \<and>
   (measure_function_time el' n' (fit rf q X' y) s = (Inr (t', r), s') \<longrightarrow>
      r = length (objects s) + n' \<and> length (objects s') = Suc (length (objects s) + n') \<and>
      take (length (objects s)) (objects s') = objects s \<and> clf s' = Some r \<and>
      (\<exists>kw m. rf_init_kwargs q = Inr kw \<and> RandomForestClassifier rf kw = Inr m \<and>
         RandomForestClassifier_fit rf m X' y = Inr (objects s' ! r)))"
  using measure_kmeans_fit[of el n cu p Xi X h t alg h'] measure_fit[of el' n' rf q X' y s t' r s']
  by blast

theorem C8_fresh_estimator_witness:
  "measure_function_time (0::nat) (Suc 0)
      (kmeans_fit log_KMeans demo_kmeans_params (Mat [[0, 0], [4, 40]]) demo_train) [] =
     (Inr (0, 1), [[Constructed, Fitted], [Constructed, Fitted]]) \<and>
   KMeans_fit log_KMeans [Constructed] demo_train =
     Inr ([[Constructed, Fitted], [Constructed, Fitted]] ! 1) \<and>
   measure_function_time (0::nat) (Suc 0)
      (fit log_ensemble demo_rf_params [[0, 0], [4, 40]] [[0, 1]]) df_clsf_start =
     (Inr (0, 1), \<lparr>clf = Some 1, objects = [[Constructed, Fitted], [Constructed, Fitted]]\<rparr>) \<and>
   RandomForestClassifier_fit log_ensemble [Constructed] [[0, 0], [4, 40]] [[0, 1]] =
     Inr ([[Constructed, Fitted], [Constructed, Fitted]] ! 1)"
proof -
  note inst = C8_fresh_estimator[of 0 "Suc 0" log_KMeans demo_kmeans_params "Mat [[0, 0], [4, 40]]"
      demo_train "[]" 0 1 "[[Constructed, Fitted], [Constructed, Fitted]]"
      0 "Suc 0" log_ensemble demo_rf_params "[[0, 0], [4, 40]]" "[[0, 1]]" df_clsf_start 0 1
      "\<lparr>clf = Some 1, objects = [[Constructed, Fitted], [Constructed, Fitted]]\<rparr>"]
  from inst demo_kmeans_fit_twice have
    "\<exists>kw m. KMeans log_KMeans kw = Inr m \<and>
       KMeans_fit log_KMeans m demo_train = Inr ([[Constructed, Fitted], [Constructed, Fitted]] ! 1)"
    by blast
  then have k: "KMeans_fit log_KMeans [Constructed] demo_train =
     Inr ([[Constructed, Fitted], [Constructed, Fitted]] ! 1)"
    by (auto simp: log_KMeans_def)
  from inst demo_fit_twice have
    "\<exists>kw m. RandomForestClassifier log_ensemble kw = Inr m \<and>
       RandomForestClassifier_fit log_ensemble m [[0, 0], [4, 40]] [[0, 1]] =
         Inr (objects \<lparr>clf = Some 1, objects = [[Constructed, Fitted], [Constructed, Fitted]]\<rparr> ! 1)"
    by blast
  then have r: "RandomForestClassifier_fit log_ensemble [Constructed] [[0, 0], [4, 40]] [[0, 1]] =
     Inr ([[Constructed, Fitted], [Constructed, Fitted]] ! 1)"
    by (auto simp: log_ensemble_def)
  from k r demo_kmeans_fit_twice demo_fit_twice show ?thesis by simp
qed

section \<open>The inertia values\<close>

lemma kmeans_predict_inertia:
  assumes "\<forall>m X l m'. KMeans_predict cu m X = Inr (l, m') \<longrightarrow> inertia_attr cu m' = inertia_attr cu m"
    and "kmeans_predict cu k X h = (r, h')"
  shows "inertia_attr cu (h' ! k) = inertia_attr cu (h ! k)"
proof (cases "KMeans_predict cu (h ! k) X")
  case (Inl e)
  with assms(2) show ?thesis by (simp add: kmeans_predict_def)
next
  case (Inr lm)
  obtain l m' where lm: "lm = (l, m')" by (cases lm)
  with Inr assms(2) have h': "h' = h[k := m']" by (simp add: kmeans_predict_def)
  from assms(1) Inr lm have same: "inertia_attr cu m' = inertia_attr cu (h ! k)" by blast
  show ?thesis
  proof (cases "k < length h")
    case True
    with h' same show ?thesis by simp
  next
    case False
    with h' show ?thesis by (simp add: list_update_beyond)
  qed
qed

lemma measure_predict_inertia:
  assumes "\<forall>m X l m'. KMeans_predict cu m X = Inr (l, m') \<longrightarrow> inertia_attr cu m' = inertia_attr cu m"
  shows "measure_function_time el n (kmeans_predict cu k X) h = (r, h') \<Longrightarrow>
           inertia_attr cu (h' ! k) = inertia_attr cu (h ! k)"
proof (induction n arbitrary: h)
  case 0
  obtain r0 h0 where c: "kmeans_predict cu k X h = (r0, h0)" by (cases "kmeans_predict cu k X h")
  with 0 have "h0 = h'" by (auto split: sum.splits)
  with kmeans_predict_inertia[OF assms c] show ?case by simp
next
  case (Suc n)
  obtain r0 h0 where c: "kmeans_predict cu k X h = (r0, h0)" by (cases "kmeans_predict cu k X h")
  note step = kmeans_predict_inertia[OF assms c]
  show ?case
  proof (cases r0)
    case (Inl e)
    with Suc.prems c have "h0 = h'" by simp
    with step show ?thesis by simp
  next
    case (Inr v)
    with Suc.prems c have "measure_function_time el n (kmeans_predict cu k X) h0 = (r, h')"
      by simp
    from Suc.IH[OF this] step show ?thesis by simp
  qed
qed

lemma kmeans_main_report:
  assumes "kmeans_main conv shared cl load_data np cu el loops g = Inr rep"
  shows "\<exists>params0 X_train X_test X_init params g' fit_time kmeans train_inertia predict_time
            test_inertia h.
           parse_args conv kmeans_arguments shared cl = Inr params0 \<and>
           load_data params0 = Inr (X_train, X_test) \<and>
           initial_centroids np params0 X_train g = (Inr (X_init, params), g') \<and>
           kmeans_timed cu el (loops params) params X_init X_train X_test [] =
             (Inr (fit_time, kmeans, train_inertia, predict_time, test_inertia), h) \<and>
           accuracies rep = [train_inertia, test_inertia] \<and> times rep = [fit_time, predict_time] \<and>
           alg_instance rep = kmeans \<and> params_arg rep = params"
  using assms
  by (auto simp: kmeans_main_def lookup_global_def kmeans_bound_names_def
      split: sum.splits prod.splits)

lemma demo_kmeans_timed:
  "kmeans_timed log_KMeans (0::nat, 0) (Suc 0) demo_kmeans_params (Mat [[0, 0], [4, 40]])
      demo_train demo_train [] =
     (Inr (0, 1, 2, 0, 4), [[Constructed, Fitted], [Constructed, Fitted, Predicted, Predicted]])"
  by (simp add: kmeans_timed_def kmeans_fit_def kmeans_predict_def kmeans_init_kwargs_def
      getattr_def demo_kmeans_params_def log_KMeans_def)

text \<open>
  C2: \<^verbatim>\<open>train_inertia\<close> is the \<^verbatim>\<open>inertia_\<close> attribute of the estimator the timed fit
  returns, read in the store as the timed fit leaves it; \<^verbatim>\<open>test_inertia\<close> is the same
  attribute of the same object, read in the store as the timed predict leaves it. Neither is
  computed from the labels \<^verbatim>\<open>predict\<close> returns: if \<^verbatim>\<open>predict\<close> never changes the attribute,
  the test inertia equals the training inertia whatever the test set is.
\<close>

theorem C2_inertia_read_from_estimator:
  assumes "kmeans_timed cu el n p Xi X_train X_test h =
             (Inr (fit_time, kmeans, train_inertia, predict_time, test_inertia), h2)"
  shows "\<exists>h1 labels.
           measure_function_time (fst el) n (kmeans_fit cu p Xi X_train) h =
             (Inr (fit_time, kmeans), h1) \<and>
           inertia_attr cu (h1 ! kmeans) = Inr train_inertia \<and>
           measure_function_time (snd el) n (kmeans_predict cu kmeans X_test) h1 =
             (Inr (predict_time, labels), h2) \<and>
           inertia_attr cu (h2 ! kmeans) = Inr test_inertia \<and>
           ((\<forall>m X l m'. KMeans_predict cu m X = Inr (l, m') \<longrightarrow>
                inertia_attr cu m' = inertia_attr cu m) \<longrightarrow>
              test_inertia = train_inertia)"
proof -
  from assms obtain h1 labels where
    a: "measure_function_time (fst el) n (kmeans_fit cu p Xi X_train) h = (Inr (fit_time, kmeans), h1)"
    and b: "inertia_attr cu (h1 ! kmeans) = Inr train_inertia"
    and c: "measure_function_time (snd el) n (kmeans_predict cu kmeans X_test) h1 =
             (Inr (predict_time, labels), h2)"
    and d: "inertia_attr cu (h2 ! kmeans) = Inr test_inertia"
    by (auto simp: kmeans_timed_def split: prod.splits sum.splits)
  have "test_inertia = train_inertia"
    if "\<forall>m X l m'. KMeans_predict cu m X = Inr (l, m') \<longrightarrow> inertia_attr cu m' = inertia_attr cu m"
    using measure_predict_inertia[OF that c] b d by simp
  with a b c d show ?thesis by blast
qed

theorem C2_inertia_read_from_estimator_witness:
  "kmeans_timed log_KMeans (0::nat, 0) (Suc 0) demo_kmeans_params (Mat [[0, 0], [4, 40]])
      demo_train demo_train [] =
     (Inr (0, 1, 2, 0, 4), [[Constructed, Fitted], [Constructed, Fitted, Predicted, Predicted]]) \<and>
   inertia_attr log_KMeans
      ([[Constructed, Fitted], [Constructed, Fitted, Predicted, Predicted]] ! 1) = Inr 4"
  using C2_inertia_read_from_estimator[OF demo_kmeans_timed] demo_kmeans_timed
  by blast

section \<open>Parsing the command line\<close>

lemma parse_options_Inl:
  "parse_options conv decls cl ns = Inl e \<Longrightarrow> e = usage_error"
  by (induction conv decls cl ns rule: parse_options.induct)
     (auto split: option.splits arg_action.splits if_splits)

lemma parse_options_head:
  "(\<forall>rest. parse_options conv decls (x # rest) ns = Inl usage_error) \<or>
   (\<exists>ns'. \<forall>rest. parse_options conv decls (x # rest) ns = parse_options conv decls rest ns')"
  by (cases x) (auto split: option.splits arg_action.splits)

lemma parse_options_append:
  "parse_options conv decls (cl @ cl') ns =
     (case parse_options conv decls cl ns of
        Inl e \<Rightarrow> Inl e
      | Inr ns' \<Rightarrow> parse_options conv decls cl' ns')"
proof (induction cl arbitrary: ns)
  case Nil
  then show ?case by simp
next
  case (Cons x cl)
  from parse_options_head[of conv decls x ns] show ?case
  proof
    assume "\<forall>rest. parse_options conv decls (x # rest) ns = Inl usage_error"
    then have "parse_options conv decls (x # cl) ns = Inl usage_error"
      and "parse_options conv decls (x # (cl @ cl')) ns = Inl usage_error"
      by blast+
    then show ?thesis by simp
  next
    assume "\<exists>ns'. \<forall>rest. parse_options conv decls (x # rest) ns =
              parse_options conv decls rest ns'"
    then obtain ns' where
      "parse_options conv decls (x # cl) ns = parse_options conv decls cl ns'"
      and "parse_options conv decls (x # (cl @ cl')) ns = parse_options conv decls (cl @ cl') ns'"
      by blast
    with Cons.IH[of ns'] show ?thesis by simp
  qed
qed

lemma parse_options_value:
  "parse_options conv decls cl ns = Inr ns' \<Longrightarrow>
     ns' k = ns k \<or>
     (\<exists>a opt arg. a \<in> set decls \<and> dest a = k \<and> (opt, arg) \<in> set cl \<and>
        opt \<in> set (option_strings a) \<and>
        (if action_kw a = Some Store_false then ns' k = Some (PyBool False)
         else \<exists>s v. arg = Some s \<and> convert conv (type_kw a) s = Some v \<and>
                in_choices (choices_kw a) v \<and> ns' k = Some v))"
proof (induction cl arbitrary: ns)
  case Nil
  then show ?case by simp
next
  case (Cons x cl)
  obtain opt arg where x: "x = (opt, arg)" by (cases x)
  from Cons.prems x obtain a where
    found: "find (\<lambda>a. List.member (option_strings a) opt) decls = Some a"
    by (auto split: option.splits)
  then have a: "a \<in> set decls" "opt \<in> set (option_strings a)"
    by (auto simp: find_Some_iff)
  show ?case
  proof (cases "action_kw a = Some Store_false")
    case True
    with Cons.prems x found have
      rest: "parse_options conv decls cl (ns(dest a \<mapsto> PyBool False)) = Inr ns'"
      by (auto split: option.splits)
    from Cons.IH[OF rest] show ?thesis
    proof
      assume eq: "ns' k = (ns(dest a \<mapsto> PyBool False)) k"
      show ?thesis
      proof (cases "dest a = k")
        case True
        with eq have "ns' k = Some (PyBool False)" by simp
        with a True \<open>action_kw a = Some Store_false\<close> x show ?thesis
          by (intro disjI2 exI[of _ a] exI[of _ opt] exI[of _ arg]) simp
      next
        case False
        with eq show ?thesis by simp
      qed
    next
      assume "\<exists>a opt arg. a \<in> set decls \<and> dest a = k \<and> (opt, arg) \<in> set cl \<and>
        opt \<in> set (option_strings a) \<and>
        (if action_kw a = Some Store_false then ns' k = Some (PyBool False)
         else \<exists>s v. arg = Some s \<and> convert conv (type_kw a) s = Some v \<and>
                in_choices (choices_kw a) v \<and> ns' k = Some v)"
      then obtain a' opt' arg' where
        "a' \<in> set decls" "dest a' = k" "(opt', arg') \<in> set cl" "opt' \<in> set (option_strings a')"
        "if action_kw a' = Some Store_false then ns' k = Some (PyBool False)
         else \<exists>s v. arg' = Some s \<and> convert conv (type_kw a') s = Some v \<and>
                in_choices (choices_kw a') v \<and> ns' k = Some v"
        by blast
      then show ?thesis
        by (intro disjI2 exI[of _ a'] exI[of _ opt'] exI[of _ arg']) simp
    qed
  next
    case False
    with Cons.prems x found obtain s v where
      arg: "arg = Some s" and conv: "convert conv (type_kw a) s = Some v"
      and ch: "in_choices (choices_kw a) v"
      and rest: "parse_options conv decls cl (ns(dest a \<mapsto> v)) = Inr ns'"
      by (auto split: option.splits arg_action.splits if_splits)
    from Cons.IH[OF rest] show ?thesis
    proof
      assume eq: "ns' k = (ns(dest a \<mapsto> v)) k"
      show ?thesis
      proof (cases "dest a = k")
        case True
        with eq have "ns' k = Some v" by simp
        with a True False x arg conv ch show ?thesis
          by (intro disjI2 exI[of _ a] exI[of _ opt] exI[of _ arg]) simp
      next
        case False
        with eq show ?thesis by simp
      qed
    next
      assume "\<exists>a opt arg. a \<in> set decls \<and> dest a = k \<and> (opt, arg) \<in> set cl \<and>
        opt \<in> set (option_strings a) \<and>
        (if action_kw a = Some Store_false then ns' k = Some (PyBool False)
         else \<exists>s v. arg = Some s \<and> convert conv (type_kw a) s = Some v \<and>
                in_choices (choices_kw a) v \<and> ns' k = Some v)"
      then obtain a' opt' arg' where
        "a' \<in> set decls" "dest a' = k" "(opt', arg') \<in> set cl" "opt' \<in> set (option_strings a')"
        "if action_kw a' = Some Store_false then ns' k = Some (PyBool False)
         else \<exists>s v. arg' = Some s \<and> convert conv (type_kw a') s = Some v \<and>
                in_choices (choices_kw a') v \<and> ns' k = Some v"
        by blast
      then show ?thesis
        by (intro disjI2 exI[of _ a'] exI[of _ opt'] exI[of _ arg']) simp
    qed
  qed
qed

lemma parse_options_keeps_bound:
  "parse_options conv decls cl ns = Inr ns' \<Longrightarrow> ns k \<noteq> None \<Longrightarrow> ns' k \<noteq> None"
  using parse_options_value[of conv decls cl ns ns' k]
  by (auto split: if_splits)

lemma df_clsf_criterion_decl:
  "a \<in> set df_clsf_arguments \<Longrightarrow> dest a = ''criterion'' \<Longrightarrow>
     option_strings a = [''--criterion''] \<and> type_kw a = Some T_str \<and>
     choices_kw a = Some [PyStr ''gini'', PyStr ''entropy''] \<and> action_kw a = None"
  by (auto simp: df_clsf_arguments_def dest_def is_long_def strip_dashes_def)

lemma df_clsf_num_trees_decl:
  "a \<in> set df_clsf_arguments \<Longrightarrow> dest a = ''num_trees'' \<Longrightarrow>
     option_strings a = [''--num-trees'']"
  by (auto simp: df_clsf_arguments_def dest_def is_long_def strip_dashes_def)

lemma df_clsf_defaults:
  "set_defaults df_clsf_arguments Map.empty ''criterion'' = Some (PyStr ''gini'')"
  "set_defaults df_clsf_arguments Map.empty ''num_trees'' = Some (PyInt 100)"
  by (simp_all add: df_clsf_arguments_def dest_def is_long_def strip_dashes_def default_value_def)

lemma parse_args_field:
  assumes "parse_args conv decls shared cl = Inr p"
    and "set_defaults decls Map.empty k \<noteq> None"
  shows "\<exists>ns. parse_options conv decls cl (set_defaults decls Map.empty) = Inr ns \<and> p k = ns k"
proof -
  from assms(1) obtain ns where
    ns: "parse_options conv decls cl (set_defaults decls Map.empty) = Inr ns"
    and p: "p = shared ++ ns"
    by (auto simp: parse_args_def argparse_parse_args_def split: sum.splits)
  from parse_options_keeps_bound[OF ns assms(2)] p have "p k = ns k"
    by (auto simp: map_add_def split: option.splits)
  with ns show ?thesis by blast
qed

lemma parse_args_criterion:
  assumes "parse_args conv df_clsf_arguments shared cl = Inr p"
  shows "p ''criterion'' = Some (PyStr ''gini'') \<or> p ''criterion'' = Some (PyStr ''entropy'')"
proof -
  from parse_args_field[OF assms, of "''criterion''"] obtain ns where
    ns: "parse_options conv df_clsf_arguments cl (set_defaults df_clsf_arguments Map.empty) = Inr ns"
    and p: "p ''criterion'' = ns ''criterion''"
    by (auto simp: df_clsf_defaults)
  from parse_options_value[OF ns, of "''criterion''"] show ?thesis
  proof
    assume "ns ''criterion'' = set_defaults df_clsf_arguments Map.empty ''criterion''"
    with p show ?thesis by (simp add: df_clsf_defaults)
  next
    assume "\<exists>a opt arg. a \<in> set df_clsf_arguments \<and> dest a = ''criterion'' \<and>
        (opt, arg) \<in> set cl \<and> opt \<in> set (option_strings a) \<and>
        (if action_kw a = Some Store_false then ns ''criterion'' = Some (PyBool False)
         else \<exists>s v. arg = Some s \<and> convert conv (type_kw a) s = Some v \<and>
                in_choices (choices_kw a) v \<and> ns ''criterion'' = Some v)"
    then obtain a opt arg where a: "a \<in> set df_clsf_arguments" "dest a = ''criterion''"
      and st: "if action_kw a = Some Store_false then ns ''criterion'' = Some (PyBool False)
         else \<exists>s v. arg = Some s \<and> convert conv (type_kw a) s = Some v \<and>
                in_choices (choices_kw a) v \<and> ns ''criterion'' = Some v"
      by blast
    from df_clsf_criterion_decl[OF a] st p show ?thesis
      by (auto simp: in_choices_def convert_def)
  qed
qed

lemma parse_bad_criterion:
  assumes "(''--criterion'', Some s) \<in> set cl" and "s \<noteq> ''gini''" and "s \<noteq> ''entropy''"
  shows "parse_options conv df_clsf_arguments cl ns = Inl usage_error"
  using assms(1)
proof (induction cl arbitrary: ns)
  case Nil
  then show ?case by simp
next
  case (Cons x cl)
  show ?case
  proof (cases "x = (''--criterion'', Some s)")
    case True
    with assms(2,3) show ?thesis
      by (simp add: df_clsf_arguments_def convert_def in_choices_def)
  next
    case False
    with Cons.prems have "(''--criterion'', Some s) \<in> set cl" by simp
    from Cons.IH[OF this] parse_options_head[of conv df_clsf_arguments x ns]
    show ?thesis by auto
  qed
qed

lemma translate_criterion:
  assumes "translate_params p y = Inr p'"
  shows "p ''criterion'' = Some (PyStr ''gini'') \<Longrightarrow> p' ''criterion'' = Some (PyInt 0)"
    and "p ''criterion'' = Some (PyStr ''entropy'') \<Longrightarrow> p' ''criterion'' = Some (PyInt 1)"
  using assms
  by (auto simp: translate_params_def getattr_def setattr_def Let_def
      split: option.splits sum.splits if_splits)

lemma rf_init_kwargs_fields:
  assumes "rf_init_kwargs p = Inr kw"
  shows "p ''criterion'' = Some (split_criterion kw)" and "p ''num_trees'' = Some (n_estimators kw)"
  using assms
  by (auto simp: rf_init_kwargs_def getattr_def split: option.splits sum.splits)

lemma parse_args_num_trees:
  assumes "parse_args conv df_clsf_arguments shared cl = Inr p"
    and "\<forall>arg. (''--num-trees'', arg) \<notin> set cl"
  shows "p ''num_trees'' = Some (PyInt 100)"
proof -
  from parse_args_field[OF assms(1), of "''num_trees''"] obtain ns where
    ns: "parse_options conv df_clsf_arguments cl (set_defaults df_clsf_arguments Map.empty) = Inr ns"
    and p: "p ''num_trees'' = ns ''num_trees''"
    by (auto simp: df_clsf_defaults)
  from parse_options_value[OF ns, of "''num_trees''"] show ?thesis
  proof
    assume "ns ''num_trees'' = set_defaults df_clsf_arguments Map.empty ''num_trees''"
    with p show ?thesis by (simp add: df_clsf_defaults)
  next
    assume "\<exists>a opt arg. a \<in> set df_clsf_arguments \<and> dest a = ''num_trees'' \<and>
        (opt, arg) \<in> set cl \<and> opt \<in> set (option_strings a) \<and>
        (if action_kw a = Some Store_false then ns ''num_trees'' = Some (PyBool False)
         else \<exists>s v. arg = Some s \<and> convert conv (type_kw a) s = Some v \<and>
                in_choices (choices_kw a) v \<and> ns ''num_trees'' = Some v)"
    then obtain a opt arg where a: "a \<in> set df_clsf_arguments" "dest a = ''num_trees''"
      and occ: "(opt, arg) \<in> set cl" "opt \<in> set (option_strings a)"
      by blast
    from df_clsf_num_trees_decl[OF a] occ assms(2) show ?thesis by auto
  qed
qed

lemma translate_num_trees:
  "translate_params p y = Inr p' \<Longrightarrow> p' ''num_trees'' = p ''num_trees''"
  by (auto simp: translate_params_def getattr_def setattr_def Let_def
      split: option.splits sum.splits if_splits)

lemma demo_parse_defaults:
  "parse_args digits_conv df_clsf_arguments Map.empty [] = Inr default_df_params"
  by (simp add: parse_args_def argparse_parse_args_def df_clsf_arguments_def dest_def is_long_def
      strip_dashes_def default_value_def default_df_params_def)

lemma demo_parse_entropy:
  "parse_args digits_conv df_clsf_arguments Map.empty [(''--criterion'', Some ''entropy'')] =
     Inr (default_df_params(''criterion'' \<mapsto> PyStr ''entropy''))"
  by (simp add: parse_args_def argparse_parse_args_def df_clsf_arguments_def dest_def is_long_def
      strip_dashes_def default_value_def default_df_params_def convert_def in_choices_def)

lemma demo_translate_entropy:
  "translate_params (default_df_params(''criterion'' \<mapsto> PyStr ''entropy'')) [[0, 1]] =
     Inr (default_df_params(''criterion'' \<mapsto> PyInt 1, ''split_algorithm'' \<mapsto> PyInt 0,
            ''n_classes'' \<mapsto> PyInt 2))"
  by (simp add: translate_params_def getattr_def setattr_def nunique_first_column_def
      default_df_params_def)

lemma demo_translate_defaults:
  "translate_params default_df_params [[0, 1]] =
     Inr (default_df_params(''criterion'' \<mapsto> PyInt 0, ''split_algorithm'' \<mapsto> PyInt 0,
            ''n_classes'' \<mapsto> PyInt 2))"
  by (simp add: translate_params_def getattr_def setattr_def nunique_first_column_def
      default_df_params_def)

lemma demo_kwargs_entropy:
  "rf_init_kwargs (default_df_params(''criterion'' \<mapsto> PyInt 1, ''split_algorithm'' \<mapsto> PyInt 0,
            ''n_classes'' \<mapsto> PyInt 2)) =
     Inr \<lparr>split_criterion = PyInt 1, split_algo = PyInt 0, n_estimators = PyInt 100,
          max_depth = PyNone, max_features = PyNone, min_rows_per_node = PyInt 2,
          max_leaves = PyInt (- 1), min_impurity_decrease = PyFloat 0, bootstrap = PyBool True\<rparr>"
  by (simp add: rf_init_kwargs_def getattr_def default_df_params_def)

lemma demo_kwargs_defaults:
  "rf_init_kwargs (default_df_params(''criterion'' \<mapsto> PyInt 0, ''split_algorithm'' \<mapsto> PyInt 0,
            ''n_classes'' \<mapsto> PyInt 2)) =
     Inr \<lparr>split_criterion = PyInt 0, split_algo = PyInt 0, n_estimators = PyInt 100,
          max_depth = PyNone, max_features = PyNone, min_rows_per_node = PyInt 2,
          max_leaves = PyInt (- 1), min_impurity_decrease = PyFloat 0, bootstrap = PyBool True\<rparr>"
  by (simp add: rf_init_kwargs_def getattr_def default_df_params_def)

lemma demo_fit_defaults:
  "fit log_ensemble (default_df_params(''criterion'' \<mapsto> PyInt 0, ''split_algorithm'' \<mapsto> PyInt 0,
            ''n_classes'' \<mapsto> PyInt 2)) [[0, 0], [4, 40]] [[0, 1]] df_clsf_start =
     (Inr 0, \<lparr>clf = Some 0, objects = [[Constructed, Fitted]]\<rparr>)"
  by (simp add: fit_def demo_kwargs_defaults log_ensemble_def df_clsf_start_def)

text \<open>
  C3: a command line with a \<^verbatim>\<open>--criterion\<close> value other than \<^verbatim>\<open>gini\<close> and \<^verbatim>\<open>entropy\<close>
  ends the classification script at \<^verbatim>\<open>parse_args\<close> with exit status 2, in the start state:
  no estimator has been built. When parsing succeeds, \<^verbatim>\<open>params.criterion\<close> is \<^verbatim>\<open>'gini'\<close>
  or \<^verbatim>\<open>'entropy'\<close>, and the estimator is constructed with \<^verbatim>\<open>split_criterion\<close> 0 for
  \<^verbatim>\<open>'gini'\<close> and 1 for \<^verbatim>\<open>'entropy'\<close>. The value of the last \<^verbatim>\<open>--criterion\<close> on the command
  line is the one \<^verbatim>\<open>params.criterion\<close> holds.
\<close>

theorem C3_criterion_codes:
  "((''--criterion'', Some s) \<in> set cl \<and> s \<noteq> ''gini'' \<and> s \<noteq> ''entropy'' \<longrightarrow>
      df_clsf_main conv shared cl load_data cu accuracy_score el loops =
        (Inl (SystemExit 2), df_clsf_start)) \<and>
   (parse_args conv df_clsf_arguments shared cl = Inr p \<and> translate_params p y = Inr p' \<and>
    rf_init_kwargs p' = Inr kw \<longrightarrow>
      p ''criterion'' = Some (PyStr ''gini'') \<and> split_criterion kw = PyInt 0 \<or>
      p ''criterion'' = Some (PyStr ''entropy'') \<and> split_criterion kw = PyInt 1) \<and>
   (parse_args conv df_clsf_arguments shared (cl @ [(''--criterion'', Some s)]) = Inr p \<longrightarrow>
      p ''criterion'' = Some (PyStr s))"
proof (intro conjI impI)
  assume "(''--criterion'', Some s) \<in> set cl \<and> s \<noteq> ''gini'' \<and> s \<noteq> ''entropy''"
  then have "parse_options conv df_clsf_arguments cl (set_defaults df_clsf_arguments Map.empty) =
               Inl usage_error"
    using parse_bad_criterion[of s cl conv "set_defaults df_clsf_arguments Map.empty"] by blast
  then have "parse_args conv df_clsf_arguments shared cl = Inl usage_error"
    by (simp add: parse_args_def argparse_parse_args_def)
  then show "df_clsf_main conv shared cl load_data cu accuracy_score el loops =
        (Inl (SystemExit 2), df_clsf_start)"
    by (simp add: df_clsf_main_def usage_error_def)
next
  assume a: "parse_args conv df_clsf_arguments shared cl = Inr p \<and> translate_params p y = Inr p' \<and>
    rf_init_kwargs p' = Inr kw"
  then have t: "translate_params p y = Inr p'" and k: "rf_init_kwargs p' = Inr kw" by simp_all
  from a parse_args_criterion[of conv shared cl p] translate_criterion[OF t]
    rf_init_kwargs_fields(1)[OF k]
  show "p ''criterion'' = Some (PyStr ''gini'') \<and> split_criterion kw = PyInt 0 \<or>
      p ''criterion'' = Some (PyStr ''entropy'') \<and> split_criterion kw = PyInt 1"
    by auto
next
  assume a: "parse_args conv df_clsf_arguments shared (cl @ [(''--criterion'', Some s)]) = Inr p"
  from parse_args_field[OF a, of "''criterion''"] obtain ns where
    ns: "parse_options conv df_clsf_arguments (cl @ [(''--criterion'', Some s)])
           (set_defaults df_clsf_arguments Map.empty) = Inr ns"
    and p: "p ''criterion'' = ns ''criterion''"
    by (auto simp: df_clsf_defaults)
  from ns obtain ns0 where
    "parse_options conv df_clsf_arguments [(''--criterion'', Some s)] ns0 = Inr ns"
    by (auto simp: parse_options_append split: sum.splits)
  then have "ns ''criterion'' = Some (PyStr s)"
    by (auto simp: df_clsf_arguments_def convert_def in_choices_def dest_def is_long_def
        strip_dashes_def split: if_splits)
  with p show "p ''criterion'' = Some (PyStr s)" by simp
qed

theorem C3_criterion_codes_witness:
  "df_clsf_main digits_conv Map.empty [(''--criterion'', Some ''mse'')] demo_load_data
      log_ensemble exact_matches (0::nat, 0) (\<lambda>params. 0) = (Inl (SystemExit 2), df_clsf_start) \<and>
   parse_args digits_conv df_clsf_arguments Map.empty [(''--criterion'', Some ''entropy'')] =
     Inr (default_df_params(''criterion'' \<mapsto> PyStr ''entropy'')) \<and>
   (default_df_params(''criterion'' \<mapsto> PyStr ''entropy'')) ''criterion'' = Some (PyStr ''entropy'') \<and>
   split_criterion
     \<lparr>split_criterion = PyInt 1, split_algo = PyInt 0, n_estimators = PyInt 100,
      max_depth = PyNone, max_features = PyNone, min_rows_per_node = PyInt 2,
      max_leaves = PyInt (- 1), min_impurity_decrease = PyFloat 0, bootstrap = PyBool True\<rparr> =
     PyInt 1"
proof -
  have bad: "(''--criterion'', Some ''mse'') \<in> set [(''--criterion'', Some ''mse'')] \<and>
             ''mse'' \<noteq> ''gini'' \<and> ''mse'' \<noteq> ''entropy''"
    by simp
  have last: "[] @ [(''--criterion'', Some ''entropy'')] = [(''--criterion'', Some ''entropy'')]"
    by simp
  from C3_criterion_codes[of "''mse''" "[(''--criterion'', Some ''mse'')]" digits_conv Map.empty
      demo_load_data log_ensemble exact_matches "(0::nat, 0)" "\<lambda>params. 0"] bad
  have a: "df_clsf_main digits_conv Map.empty [(''--criterion'', Some ''mse'')] demo_load_data
      log_ensemble exact_matches (0::nat, 0) (\<lambda>params. 0) = (Inl (SystemExit 2), df_clsf_start)"
    by blast
  from C3_criterion_codes[of "''entropy''" "[(''--criterion'', Some ''entropy'')]" digits_conv
      Map.empty demo_load_data log_ensemble exact_matches "(0::nat, 0)" "\<lambda>params. 0"
      "default_df_params(''criterion'' \<mapsto> PyStr ''entropy'')" "[[0, 1]]"
      "default_df_params(''criterion'' \<mapsto> PyInt 1, ''split_algorithm'' \<mapsto> PyInt 0,
            ''n_classes'' \<mapsto> PyInt 2)"
      "\<lparr>split_criterion = PyInt 1, split_algo = PyInt 0, n_estimators = PyInt 100,
          max_depth = PyNone, max_features = PyNone, min_rows_per_node = PyInt 2,
          max_leaves = PyInt (- 1), min_impurity_decrease = PyFloat 0, bootstrap = PyBool True\<rparr>"]
    demo_parse_entropy demo_translate_entropy demo_kwargs_entropy
  have b: "(default_df_params(''criterion'' \<mapsto> PyStr ''entropy'')) ''criterion'' =
             Some (PyStr ''entropy'') \<and>
           split_criterion
             \<lparr>split_criterion = PyInt 1, split_algo = PyInt 0, n_estimators = PyInt 100,
              max_depth = PyNone, max_features = PyNone, min_rows_per_node = PyInt 2,
              max_leaves = PyInt (- 1), min_impurity_decrease = PyFloat 0,
              bootstrap = PyBool True\<rparr> = PyInt 1"
    by simp
  from a b demo_parse_entropy show ?thesis by blast
qed

text \<open>
  C9: when the command line has no \<^verbatim>\<open>--num-trees\<close>, \<^verbatim>\<open>params.num_trees\<close> is 100 after
  \<^verbatim>\<open>parse_args\<close>; \<open>fit\<close> constructs the estimator with \<^verbatim>\<open>n_estimators\<close> equal to
  \<^verbatim>\<open>params.num_trees\<close>, so with 100 trees there, and that estimator is the one it fits.
\<close>

theorem C9_default_num_trees:
  "((\<forall>arg. (''--num-trees'', arg) \<notin> set cl) \<and>
    parse_args conv df_clsf_arguments shared cl = Inr p \<longrightarrow>
      p ''num_trees'' = Some (PyInt 100)) \<and>
   ((\<forall>arg. (''--num-trees'', arg) \<notin> set cl) \<and>
    parse_args conv df_clsf_arguments shared cl = Inr p \<and> translate_params p y = Inr p' \<and>
    fit cu p' X y s = (Inr r, s') \<longrightarrow>
      (\<exists>kw m. rf_init_kwargs p' = Inr kw \<and> p' ''num_trees'' = Some (n_estimators kw) \<and>
         n_estimators kw = PyInt 100 \<and> RandomForestClassifier cu kw = Inr m \<and>
         RandomForestClassifier_fit cu m X y = Inr (objects s' ! r)))"
proof (intro conjI impI)
  assume "(\<forall>arg. (''--num-trees'', arg) \<notin> set cl) \<and>
    parse_args conv df_clsf_arguments shared cl = Inr p"
  then show "p ''num_trees'' = Some (PyInt 100)"
    using parse_args_num_trees by blast
next
  assume a: "(\<forall>arg. (''--num-trees'', arg) \<notin> set cl) \<and>
    parse_args conv df_clsf_arguments shared cl = Inr p \<and> translate_params p y = Inr p' \<and>
    fit cu p' X y s = (Inr r, s')"
  then have n: "p ''num_trees'' = Some (PyInt 100)"
    using parse_args_num_trees by blast
  from a have t: "translate_params p y = Inr p'" and f: "fit cu p' X y s = (Inr r, s')"
    by simp_all
  from translate_num_trees[OF t] n have n': "p' ''num_trees'' = Some (PyInt 100)" by simp
  from fit_Inr(5)[OF f] obtain kw m where
    kw: "rf_init_kwargs p' = Inr kw" and m: "RandomForestClassifier cu kw = Inr m"
    and fitted: "RandomForestClassifier_fit cu m X y = Inr (objects s' ! r)"
    by blast
  from rf_init_kwargs_fields(2)[OF kw] n' have "n_estimators kw = PyInt 100" by simp
  with kw m fitted n' show "\<exists>kw m. rf_init_kwargs p' = Inr kw \<and>
         p' ''num_trees'' = Some (n_estimators kw) \<and>
         n_estimators kw = PyInt 100 \<and> RandomForestClassifier cu kw = Inr m \<and>
         RandomForestClassifier_fit cu m X y = Inr (objects s' ! r)"
    by auto
qed

theorem C9_default_num_trees_witness:
  "parse_args digits_conv df_clsf_arguments Map.empty [] = Inr default_df_params \<and>
   default_df_params ''num_trees'' = Some (PyInt 100) \<and>
   fit log_ensemble (default_df_params(''criterion'' \<mapsto> PyInt 0, ''split_algorithm'' \<mapsto> PyInt 0,
            ''n_classes'' \<mapsto> PyInt 2)) [[0, 0], [4, 40]] [[0, 1]] df_clsf_start =
     (Inr 0, \<lparr>clf = Some 0, objects = [[Constructed, Fitted]]\<rparr>) \<and>
   (\<exists>kw m. rf_init_kwargs (default_df_params(''criterion'' \<mapsto> PyInt 0,
              ''split_algorithm'' \<mapsto> PyInt 0, ''n_classes'' \<mapsto> PyInt 2)) = Inr kw \<and>
      n_estimators kw = PyInt 100 \<and> RandomForestClassifier log_ensemble kw = Inr m \<and>
      RandomForestClassifier_fit log_ensemble m [[0, 0], [4, 40]] [[0, 1]] =
        Inr [Constructed, Fitted])"
proof -
  have none: "\<forall>arg. (''--num-trees'', arg) \<notin> set []" by simp
  note inst = C9_default_num_trees[of "[]" digits_conv Map.empty default_df_params "[[0, 1]]"
      "default_df_params(''criterion'' \<mapsto> PyInt 0, ''split_algorithm'' \<mapsto> PyInt 0,
            ''n_classes'' \<mapsto> PyInt 2)" log_ensemble "[[0, 0], [4, 40]]" df_clsf_start 0
      "\<lparr>clf = Some 0, objects = [[Constructed, Fitted]]\<rparr>"]
  from inst none demo_parse_defaults have a: "default_df_params ''num_trees'' = Some (PyInt 100)"
    by blast
  from inst none demo_parse_defaults demo_translate_defaults demo_fit_defaults
  have "\<exists>kw m. rf_init_kwargs (default_df_params(''criterion'' \<mapsto> PyInt 0,
              ''split_algorithm'' \<mapsto> PyInt 0, ''n_classes'' \<mapsto> PyInt 2)) = Inr kw \<and>
      n_estimators kw = PyInt 100 \<and> RandomForestClassifier log_ensemble kw = Inr m \<and>
      RandomForestClassifier_fit log_ensemble m [[0, 0], [4, 40]] [[0, 1]] =
        Inr (objects \<lparr>clf = Some 0, objects = [[Constructed, Fitted]]\<rparr> ! 0)"
    by blast
  then have b: "\<exists>kw m. rf_init_kwargs (default_df_params(''criterion'' \<mapsto> PyInt 0,
              ''split_algorithm'' \<mapsto> PyInt 0, ''n_classes'' \<mapsto> PyInt 2)) = Inr kw \<and>
      n_estimators kw = PyInt 100 \<and> RandomForestClassifier log_ensemble kw = Inr m \<and>
      RandomForestClassifier_fit log_ensemble m [[0, 0], [4, 40]] [[0, 1]] =
        Inr [Constructed, Fitted]"
    by simp
  from a b demo_parse_defaults demo_fit_defaults show ?thesis by blast
qed

section \<open>predict and the global name clf\<close>

lemma predict_keeps_clf:
  "clf (snd (predict cu p X s)) = clf s"
  by (simp add: predict_def Let_def split: sum.splits option.splits prod.splits)

lemma predict_unbound_fails:
  "clf s = None \<Longrightarrow> \<exists>e. predict cu p X s = (Inl e, s)"
  by (simp add: predict_def Let_def split: sum.splits option.splits prod.splits)

text \<open>
  C10: \<open>predict\<close> reads the global \<^verbatim>\<open>clf\<close>, which only \<open>fit\<close> binds (the script
  starts with the name unbound, and \<open>predict\<close> leaves the binding as it is). Called while
  \<^verbatim>\<open>clf\<close> is unbound, for every input \<open>X\<close>, it raises NameError for \<^verbatim>\<open>clf\<close> and changes
  nothing, given that the version test of line 84 evaluates and \<^verbatim>\<open>params.n_classes\<close> is
  set (line 65 sets it before \<open>predict\<close> is defined).
\<close>

theorem C10_predict_before_fit:
  assumes "clf s = None" and "version_minor cu = Inr minor" and "p ''n_classes'' = Some nc"
  shows "predict cu p X s = (Inl (NameError ''clf''), s)"
  using assms by (simp add: predict_def getattr_def Let_def)

theorem C10_predict_before_fit_witness:
  "clf (df_clsf_start :: call list globals) = None \<and>
   version_minor log_ensemble = Inr 14 \<and>
   demo_rf_params ''n_classes'' = Some (PyInt 2) \<and>
   predict log_ensemble demo_rf_params [[0, 0], [4, 40]] df_clsf_start =
     (Inl (NameError ''clf''), df_clsf_start)"
proof -
  have a: "clf (df_clsf_start :: call list globals) = None"
    by (simp add: df_clsf_start_def)
  have b: "version_minor log_ensemble = Inr 14"
    by (simp add: log_ensemble_def)
  have c: "demo_rf_params ''n_classes'' = Some (PyInt 2)"
    by (simp add: demo_rf_params_def)
  from C10_predict_before_fit[of df_clsf_start log_ensemble 14 demo_rf_params "PyInt 2"
      "[[0, 0], [4, 40]]"] a b c
  show ?thesis by simp
qed

section \<open>The report of the classification script\<close>

lemma print_output_unbound:
  "lookup_global df_clsf_bound_names ''print_output'' = Inl (NameError ''print_output'')"
  by (simp add: lookup_global_def df_clsf_bound_names_def)

lemma print_output_bound:
  "lookup_global kmeans_bound_names ''print_output'' = Inr ()"
  by (simp add: lookup_global_def kmeans_bound_names_def)

lemma df_clsf_main_never_reports:
  "\<exists>e. fst (df_clsf_main conv shared cl load_data cu accuracy_score el loops) = Inl e"
  by (simp add: df_clsf_main_def print_output_unbound Let_def
      split: sum.splits prod.splits option.splits)

lemma demo_predict_train:
  "predict log_ensemble (default_df_params(''criterion'' \<mapsto> PyInt 0, ''split_algorithm'' \<mapsto> PyInt 0,
            ''n_classes'' \<mapsto> PyInt 2)) [[0, 0], [4, 40]]
      \<lparr>clf = Some 0, objects = [[Constructed, Fitted]]\<rparr> =
     (Inr [0, 0], \<lparr>clf = Some 0, objects = [[Constructed, Fitted, Predicted]]\<rparr>)"
  by (simp add: predict_def getattr_def log_ensemble_def Let_def)

lemma demo_predict_test:
  "predict log_ensemble (default_df_params(''criterion'' \<mapsto> PyInt 0, ''split_algorithm'' \<mapsto> PyInt 0,
            ''n_classes'' \<mapsto> PyInt 2)) [[1, 1]]
      \<lparr>clf = Some 0, objects = [[Constructed, Fitted, Predicted]]\<rparr> =
     (Inr [0], \<lparr>clf = Some 0, objects = [[Constructed, Fitted, Predicted, Predicted]]\<rparr>)"
  by (simp add: predict_def getattr_def log_ensemble_def Let_def)

lemma demo_scores:
  "exact_matches [0, 0] [[0, 1]] = Inr (1 / 2)" "exact_matches [0] [[0]] = Inr 1"
  by (simp_all add: exact_matches_def)

text \<open>
  C7: the classification script computes \<^verbatim>\<open>train_acc\<close> and \<^verbatim>\<open>test_acc\<close> as 100 times
  the accuracy score of the predictions on the training and on the test partition, but it
  does not emit them: line 95 calls \<^verbatim>\<open>print_output\<close>, a name the module never binds (it
  imports \<^verbatim>\<open>bench\<close> and calls every other helper through it), so a run that
  gets that far ends with NameError and no report (\<open>df_clsf_main_never_reports\<close>). The run
  below is on the default parameters: two training rows, one test row, both accuracies
  computed, then the NameError.
\<close>

theorem C7_print_output_unbound:
  "df_clsf_main digits_conv Map.empty [] demo_load_data log_ensemble exact_matches (0::nat, 0)
      (\<lambda>params. 0) =
     (Inl (NameError ''print_output''),
      \<lparr>clf = Some 0, objects = [[Constructed, Fitted, Predicted, Predicted]]\<rparr>)"
  by (simp add: df_clsf_main_def demo_parse_defaults demo_load_data_def demo_translate_defaults
      demo_fit_defaults demo_predict_train demo_predict_test demo_scores print_output_unbound)

end
